theory Spec2Isabelle
  imports Main "HOL-Library.Word" "HOL-Library.Monad_Syntax" "HOL-Library.Multiset"
    "HOL-Library.List_Lexorder"
begin

unbundle bit_operations_syntax

section \<open>Go types and values as the package reflect shows them\<close>

text \<open>
  The library \<^verbatim>\<open>jsonflag\<close> works on the caller's data through Go's package
  \<^verbatim>\<open>reflect\<close>. The embedding keeps that view: a type is a tree (\<open>rtype\<close>), its
  \<^verbatim>\<open>Kind()\<close> is computed from it, and a value is a tree of the same shape (\<open>gval\<close>).
  A pointer owns what it points to (\<open>VPtr (Some v)\<close>, nil is \<open>VPtr None\<close>): the
  configuration data the library is written for is JSON shaped, so aliasing between two
  pointers of the caller's structure and self-referential struct types are outside the
  model. Types are compared structurally; named types with a different underlying type are
  not distinguished.
\<close>

datatype Kind =
    InvalidKind | BoolKind
  | IntKind | Int8Kind | Int16Kind | Int32Kind | Int64Kind
  | UintKind | Uint8Kind | Uint16Kind | Uint32Kind | Uint64Kind | UintptrKind
  | Float32Kind | Float64Kind | Complex64Kind | Complex128Kind
  | ArrayKind | ChanKind | FuncKind | InterfaceKind | MapKind | PointerKind
  | SliceKind | StringKind | StructKind | UnsafePointerKind

text \<open>\<^verbatim>\<open>reflect.StructField\<close>: the name, the package path (empty exactly for an exported
  field), the declared type and the tag, kept as the list of its key/value pairs.\<close>

datatype 't StructField_of =
  StructField (Name: string) (PkgPath: string) (Type: 't) (Tag: "(string \<times> string) list")

datatype rtype =
    BoolT
  | IntT | Int8T | Int16T | Int32T | Int64T
  | UintT | Uint8T | Uint16T | Uint32T | Uint64T | UintptrT
  | Float32T | Float64T | Complex64T | Complex128T
  | StringT | UnsafePointerT | InterfaceT | FuncT
  | ArrayT nat rtype | ChanT rtype | MapT rtype rtype
  | PointerT rtype | SliceT rtype
  | StructT "rtype StructField_of list"

type_synonym StructField = "rtype StructField_of"

fun KindOf :: "rtype \<Rightarrow> Kind" where
  "KindOf BoolT = BoolKind"
| "KindOf IntT = IntKind"
| "KindOf Int8T = Int8Kind"
| "KindOf Int16T = Int16Kind"
| "KindOf Int32T = Int32Kind"
| "KindOf Int64T = Int64Kind"
| "KindOf UintT = UintKind"
| "KindOf Uint8T = Uint8Kind"
| "KindOf Uint16T = Uint16Kind"
| "KindOf Uint32T = Uint32Kind"
| "KindOf Uint64T = Uint64Kind"
| "KindOf UintptrT = UintptrKind"
| "KindOf Float32T = Float32Kind"
| "KindOf Float64T = Float64Kind"
| "KindOf Complex64T = Complex64Kind"
| "KindOf Complex128T = Complex128Kind"
| "KindOf StringT = StringKind"
| "KindOf UnsafePointerT = UnsafePointerKind"
| "KindOf InterfaceT = InterfaceKind"
| "KindOf FuncT = FuncKind"
| "KindOf (ArrayT n t) = ArrayKind"
| "KindOf (ChanT t) = ChanKind"
| "KindOf (MapT k t) = MapKind"
| "KindOf (PointerT t) = PointerKind"
| "KindOf (SliceT t) = SliceKind"
| "KindOf (StructT fs) = StructKind"

text \<open>\<^verbatim>\<open>Type.Elem()\<close>, \<^verbatim>\<open>Type.NumField()\<close> and \<^verbatim>\<open>Type.Field(i)\<close>. Go panics
  when they are called on a type of another kind; the program calls each only behind the
  matching test of \<^verbatim>\<open>Kind()\<close>, so the other equations are never reached.\<close>

fun Elem_t :: "rtype \<Rightarrow> rtype" where
  "Elem_t (PointerT t) = t"
| "Elem_t (SliceT t) = t"
| "Elem_t (ArrayT n t) = t"
| "Elem_t (ChanT t) = t"
| "Elem_t (MapT k t) = t"
| "Elem_t t = t"

fun NumField :: "rtype \<Rightarrow> nat" where
  "NumField (StructT fs) = length fs"
| "NumField t = 0"

fun Field_t :: "rtype \<Rightarrow> nat \<Rightarrow> StructField" where
  "Field_t (StructT fs) i = fs ! i"
| "Field_t t i = StructField [] [] t []"

definition IsExported :: "StructField \<Rightarrow> bool" where
  "IsExported f = (PkgPath f = [])"

text \<open>Values. Signed and unsigned integers of every width are numbers (the width is a
  matter of the type, see \<open>wt\<close> below); a floating-point number is its IEEE 754 bit
  pattern as \<^verbatim>\<open>Value.Float()\<close> returns it (a float64), a complex number a pair of
  them; a nil slice and a nil map are \<open>None\<close>; \<open>VNil\<close> stands for the nil value of
  the kinds the library never looks into (chan, func, interface, unsafe pointer).\<close>

datatype gval =
    VBool bool
  | VInt int
  | VUint nat
  | VFloat "64 word"
  | VComplex "64 word" "64 word"
  | VString string
  | VSlice "gval list option"
  | VMap "(gval \<times> gval) list option"
  | VPtr "gval option"
  | VStruct "gval list"
  | VArray "gval list"
  | VNil

lemma size_Type_field [termination_simp]:
  "f \<in> set fs \<Longrightarrow> size (Type f) < Suc (size_list (size_StructField_of size) fs)"
proof (induction fs)
  case Nil
  then show ?case by simp
next
  case (Cons g gs)
  have "size (Type g) \<le> size_StructField_of size g"
    by (cases g) simp
  with Cons show ?case by auto
qed

text \<open>The zero value of a type (\<^verbatim>\<open>reflect.Zero\<close>, and what \<^verbatim>\<open>reflect.New\<close> points to).\<close>

fun zero :: "rtype \<Rightarrow> gval" where
  "zero BoolT = VBool False"
| "zero IntT = VInt 0"
| "zero Int8T = VInt 0"
| "zero Int16T = VInt 0"
| "zero Int32T = VInt 0"
| "zero Int64T = VInt 0"
| "zero UintT = VUint 0"
| "zero Uint8T = VUint 0"
| "zero Uint16T = VUint 0"
| "zero Uint32T = VUint 0"
| "zero Uint64T = VUint 0"
| "zero UintptrT = VUint 0"
| "zero Float32T = VFloat 0"
| "zero Float64T = VFloat 0"
| "zero Complex64T = VComplex 0 0"
| "zero Complex128T = VComplex 0 0"
| "zero StringT = VString []"
| "zero UnsafePointerT = VNil"
| "zero InterfaceT = VNil"
| "zero FuncT = VNil"
| "zero (ArrayT n t) = VArray (replicate n (zero t))"
| "zero (ChanT t) = VNil"
| "zero (MapT k t) = VMap None"
| "zero (PointerT t) = VPtr None"
| "zero (SliceT t) = VSlice None"
| "zero (StructT fs) = VStruct (map (\<lambda>f. zero (Type f)) fs)"

section \<open>reflect.Value: handles into the caller's structure\<close>

text \<open>
  The value passed to \<^verbatim>\<open>New\<close> or \<^verbatim>\<open>Recursive\<close> is the store \<open>s\<close> that every
  operation of a flag value reads and returns updated. A \<^verbatim>\<open>reflect.Value\<close> is either
  a position inside the store (\<open>InStore\<close>: its type, the steps that lead to it from the
  root, and whether \<^verbatim>\<open>CanSet()\<close> holds) or a value outside it (\<open>Temp\<close>: what
  \<^verbatim>\<open>reflect.ValueOf\<close>, \<^verbatim>\<open>reflect.New\<close>, \<^verbatim>\<open>reflect.Zero\<close> and
  \<^verbatim>\<open>reflect.Append\<close> return). The invalid zero \<^verbatim>\<open>reflect.Value\<close> is \<open>None\<close> of
  \<open>rvalue option\<close>. A method of \<^verbatim>\<open>reflect\<close> that panics returns \<open>None\<close>.
\<close>

datatype step = Deref | FieldAt nat

datatype rvalue = InStore rtype "step list" bool | Temp rtype gval

fun store_get :: "step list \<Rightarrow> gval \<Rightarrow> gval option" where
  "store_get [] v = Some v"
| "store_get (Deref # p) (VPtr (Some v)) = store_get p v"
| "store_get (FieldAt i # p) (VStruct vs) = (if i < length vs then store_get p (vs ! i) else None)"
| "store_get p v = None"

fun store_set :: "step list \<Rightarrow> gval \<Rightarrow> gval \<Rightarrow> gval option" where
  "store_set [] x v = Some x"
| "store_set (Deref # p) x (VPtr (Some v)) = map_option (\<lambda>v'. VPtr (Some v')) (store_set p x v)"
| "store_set (FieldAt i # p) x (VStruct vs) =
     (if i < length vs then map_option (\<lambda>v'. VStruct (vs[i := v'])) (store_set p x (vs ! i))
      else None)"
| "store_set p x v = None"

fun Type_v :: "rvalue \<Rightarrow> rtype" where
  "Type_v (InStore t p c) = t"
| "Type_v (Temp t v) = t"

definition Kind_v :: "rvalue \<Rightarrow> Kind" where
  "Kind_v v = KindOf (Type_v v)"

fun CanSet :: "rvalue \<Rightarrow> bool" where
  "CanSet (InStore t p c) = c"
| "CanSet (Temp t v) = False"

text \<open>\<^verbatim>\<open>Value.Interface()\<close>: the value a handle stands for, read from the store.\<close>

fun Interface :: "rvalue \<Rightarrow> gval \<Rightarrow> gval option" where
  "Interface (InStore t p c) s = store_get p s"
| "Interface (Temp t v) s = Some v"

fun is_nil :: "gval \<Rightarrow> bool" where
  "is_nil (VPtr None) = True"
| "is_nil (VSlice None) = True"
| "is_nil (VMap None) = True"
| "is_nil VNil = True"
| "is_nil v = False"

definition IsNil :: "rvalue \<Rightarrow> gval \<Rightarrow> bool" where
  "IsNil v s = (case Interface v s of Some x \<Rightarrow> is_nil x | None \<Rightarrow> False)"

text \<open>\<^verbatim>\<open>reflect.ValueOf(base)\<close> of the root: the interface holds a copy of the caller's
  value, so the handle is not settable; what a root pointer points to is.\<close>

definition ValueOf_root :: "rtype \<Rightarrow> rvalue" where
  "ValueOf_root t = InStore t [] False"

text \<open>\<^verbatim>\<open>reflect.ValueOf(v)\<close> of a freshly parsed value \<open>v\<close> of static type \<open>t\<close>.\<close>

definition ValueOf :: "rtype \<Rightarrow> gval \<Rightarrow> rvalue" where
  "ValueOf t v = Temp t v"

section \<open>Flag values\<close>

datatype errkind = ErrSyntax | ErrRange | ErrBase nat | ErrBitSize nat

text \<open>Go \<^verbatim>\<open>error\<close> values: \<^verbatim>\<open>*strconv.NumError\<close> (function, input, cause), and the
  errors of the other packages the library calls (base64, json, the float parsers).\<close>

datatype error = NumError string string errkind | ExternError string

text \<open>The functions stored in a \<^verbatim>\<open>Value\<close> (\<^verbatim>\<open>stringFn\<close>, \<^verbatim>\<open>setFn\<close>) are named by
  constructors; \<open>call_stringFn\<close> and \<open>call_setFn\<close> below run them.\<close>

datatype stringFn =
    fn_boolValueString
  | fn_intValueString
  | fn_uintValueString
  | fn_float32ValueString
  | fn_float64ValueString
  | fn_complex64ValueString
  | fn_complex128ValueString
  | fn_stringValueString
  | fn_bytesValueString
  | fn_mapValueString
  | fn_structValueString
  | fn_sliceValueString
  | fn_complex64SliceValueString
  | fn_complex128SliceValueString

datatype setFn =
    fn_boolValueSet
  | fn_intValueSet
  | fn_int8ValueSet
  | fn_int16ValueSet
  | fn_int32ValueSet
  | fn_int64ValueSet
  | fn_uintValueSet
  | fn_uint8ValueSet
  | fn_uint16ValueSet
  | fn_uint32ValueSet
  | fn_uint64ValueSet
  | fn_float32ValueSet
  | fn_float64ValueSet
  | fn_complex64ValueSet
  | fn_complex128ValueSet
  | fn_stringValueSet
  | fn_bytesValueSet
  | fn_mapValueSet
  | fn_structValueSet
  | fn_boolSliceValueSet
  | fn_intSliceValueSet
  | fn_int8SliceValueSet
  | fn_int16SliceValueSet
  | fn_int32SliceValueSet
  | fn_int64SliceValueSet
  | fn_uintSliceValueSet
  | fn_uint8SliceValueSet
  | fn_uint16SliceValueSet
  | fn_uint32SliceValueSet
  | fn_uint64SliceValueSet
  | fn_float32SliceValueSet
  | fn_float64SliceValueSet
  | fn_complex64SliceValueSet
  | fn_complex128SliceValueSet
  | fn_stringSliceValueSet
  | fn_bytesSliceValueSet
  | fn_sliceSliceValueSet
  | fn_mapSliceValueSet
  | fn_structSliceValueSet

text \<open>The struct \<^verbatim>\<open>Value\<close>. A custom encoder gets the value and its type and returns
  bytes and an error; a custom decoder gets the text and the target (type and current
  content) and returns its error and the content it left in the target. Encoders and
  decoders are pure functions in the model.\<close>

record Value =
  base :: "rvalue option"
  fieldsIndexes :: "nat list"
  fields_v :: "StructField list"
  typeName :: string
  stringFn :: stringFn
  encodeFn :: "(rtype \<Rightarrow> gval \<Rightarrow> string \<times> error option) option"
  setFn :: setFn
  decodeFn :: "(string \<Rightarrow> rtype \<Rightarrow> gval \<Rightarrow> error option \<times> gval) option"
  isBool :: bool

definition newBoolValue :: "rvalue \<Rightarrow> nat list \<Rightarrow> StructField list \<Rightarrow> Value option" where
  "newBoolValue b fieldsIndexes' fields' = Some \<lparr>base = Some b, fieldsIndexes = fieldsIndexes',
     fields_v = fields', typeName = ''bool'', stringFn = fn_boolValueString, encodeFn = None,
     setFn = fn_boolValueSet, decodeFn = None, isBool = False\<rparr>"

definition newIntValue :: "rvalue \<Rightarrow> nat list \<Rightarrow> StructField list \<Rightarrow> Value option" where
  "newIntValue b fieldsIndexes' fields' = Some \<lparr>base = Some b, fieldsIndexes = fieldsIndexes',
     fields_v = fields', typeName = ''int'', stringFn = fn_intValueString, encodeFn = None,
     setFn = fn_intValueSet, decodeFn = None, isBool = False\<rparr>"

definition newInt8Value :: "rvalue \<Rightarrow> nat list \<Rightarrow> StructField list \<Rightarrow> Value option" where
  "newInt8Value b fieldsIndexes' fields' = Some \<lparr>base = Some b, fieldsIndexes = fieldsIndexes',
     fields_v = fields', typeName = ''int8'', stringFn = fn_intValueString, encodeFn = None,
     setFn = fn_int8ValueSet, decodeFn = None, isBool = False\<rparr>"

definition newInt16Value :: "rvalue \<Rightarrow> nat list \<Rightarrow> StructField list \<Rightarrow> Value option" where
  "newInt16Value b fieldsIndexes' fields' = Some \<lparr>base = Some b, fieldsIndexes = fieldsIndexes',
     fields_v = fields', typeName = ''int16'', stringFn = fn_intValueString, encodeFn = None,
     setFn = fn_int16ValueSet, decodeFn = None, isBool = False\<rparr>"

definition newInt32Value :: "rvalue \<Rightarrow> nat list \<Rightarrow> StructField list \<Rightarrow> Value option" where
  "newInt32Value b fieldsIndexes' fields' = Some \<lparr>base = Some b, fieldsIndexes = fieldsIndexes',
     fields_v = fields', typeName = ''int32'', stringFn = fn_intValueString, encodeFn = None,
     setFn = fn_int32ValueSet, decodeFn = None, isBool = False\<rparr>"

definition newInt64Value :: "rvalue \<Rightarrow> nat list \<Rightarrow> StructField list \<Rightarrow> Value option" where
  "newInt64Value b fieldsIndexes' fields' = Some \<lparr>base = Some b, fieldsIndexes = fieldsIndexes',
     fields_v = fields', typeName = ''int64'', stringFn = fn_intValueString, encodeFn = None,
     setFn = fn_int64ValueSet, decodeFn = None, isBool = False\<rparr>"

definition newUintValue :: "rvalue \<Rightarrow> nat list \<Rightarrow> StructField list \<Rightarrow> Value option" where
  "newUintValue b fieldsIndexes' fields' = Some \<lparr>base = Some b, fieldsIndexes = fieldsIndexes',
     fields_v = fields', typeName = ''uint'', stringFn = fn_uintValueString, encodeFn = None,
     setFn = fn_uintValueSet, decodeFn = None, isBool = False\<rparr>"

definition newUint8Value :: "rvalue \<Rightarrow> nat list \<Rightarrow> StructField list \<Rightarrow> Value option" where
  "newUint8Value b fieldsIndexes' fields' = Some \<lparr>base = Some b, fieldsIndexes = fieldsIndexes',
     fields_v = fields', typeName = ''uint8'', stringFn = fn_uintValueString, encodeFn = None,
     setFn = fn_uint8ValueSet, decodeFn = None, isBool = False\<rparr>"

definition newUint16Value :: "rvalue \<Rightarrow> nat list \<Rightarrow> StructField list \<Rightarrow> Value option" where
  "newUint16Value b fieldsIndexes' fields' = Some \<lparr>base = Some b, fieldsIndexes = fieldsIndexes',
     fields_v = fields', typeName = ''uint16'', stringFn = fn_uintValueString, encodeFn = None,
     setFn = fn_uint16ValueSet, decodeFn = None, isBool = False\<rparr>"

definition newUint32Value :: "rvalue \<Rightarrow> nat list \<Rightarrow> StructField list \<Rightarrow> Value option" where
  "newUint32Value b fieldsIndexes' fields' = Some \<lparr>base = Some b, fieldsIndexes = fieldsIndexes',
     fields_v = fields', typeName = ''uint32'', stringFn = fn_uintValueString, encodeFn = None,
     setFn = fn_uint32ValueSet, decodeFn = None, isBool = False\<rparr>"

definition newUint64Value :: "rvalue \<Rightarrow> nat list \<Rightarrow> StructField list \<Rightarrow> Value option" where
  "newUint64Value b fieldsIndexes' fields' = Some \<lparr>base = Some b, fieldsIndexes = fieldsIndexes',
     fields_v = fields', typeName = ''uint64'', stringFn = fn_uintValueString, encodeFn = None,
     setFn = fn_uint64ValueSet, decodeFn = None, isBool = False\<rparr>"

definition newFloat32Value :: "rvalue \<Rightarrow> nat list \<Rightarrow> StructField list \<Rightarrow> Value option" where
  "newFloat32Value b fieldsIndexes' fields' = Some \<lparr>base = Some b, fieldsIndexes = fieldsIndexes',
     fields_v = fields', typeName = ''float32'', stringFn = fn_float32ValueString, encodeFn = None,
     setFn = fn_float32ValueSet, decodeFn = None, isBool = False\<rparr>"

definition newFloat64Value :: "rvalue \<Rightarrow> nat list \<Rightarrow> StructField list \<Rightarrow> Value option" where
  "newFloat64Value b fieldsIndexes' fields' = Some \<lparr>base = Some b, fieldsIndexes = fieldsIndexes',
     fields_v = fields', typeName = ''float64'', stringFn = fn_float64ValueString, encodeFn = None,
     setFn = fn_float64ValueSet, decodeFn = None, isBool = False\<rparr>"

definition newComplex64Value :: "rvalue \<Rightarrow> nat list \<Rightarrow> StructField list \<Rightarrow> Value option" where
  "newComplex64Value b fieldsIndexes' fields' = Some \<lparr>base = Some b, fieldsIndexes = fieldsIndexes',
     fields_v = fields', typeName = ''complex64'', stringFn = fn_complex64ValueString, encodeFn = None,
     setFn = fn_complex64ValueSet, decodeFn = None, isBool = False\<rparr>"

definition newComplex128Value :: "rvalue \<Rightarrow> nat list \<Rightarrow> StructField list \<Rightarrow> Value option" where
  "newComplex128Value b fieldsIndexes' fields' = Some \<lparr>base = Some b, fieldsIndexes = fieldsIndexes',
     fields_v = fields', typeName = ''complex128'', stringFn = fn_complex128ValueString, encodeFn = None,
     setFn = fn_complex128ValueSet, decodeFn = None, isBool = False\<rparr>"

definition newStringValue :: "rvalue \<Rightarrow> nat list \<Rightarrow> StructField list \<Rightarrow> Value option" where
  "newStringValue b fieldsIndexes' fields' = Some \<lparr>base = Some b, fieldsIndexes = fieldsIndexes',
     fields_v = fields', typeName = ''string'', stringFn = fn_stringValueString, encodeFn = None,
     setFn = fn_stringValueSet, decodeFn = None, isBool = False\<rparr>"

definition newBytesValue :: "rvalue \<Rightarrow> nat list \<Rightarrow> StructField list \<Rightarrow> Value option" where
  "newBytesValue b fieldsIndexes' fields' = Some \<lparr>base = Some b, fieldsIndexes = fieldsIndexes',
     fields_v = fields', typeName = ''base64'', stringFn = fn_bytesValueString, encodeFn = None,
     setFn = fn_bytesValueSet, decodeFn = None, isBool = False\<rparr>"

definition newMapValue :: "rvalue \<Rightarrow> nat list \<Rightarrow> StructField list \<Rightarrow> Value option" where
  "newMapValue b fieldsIndexes' fields' = Some \<lparr>base = Some b, fieldsIndexes = fieldsIndexes',
     fields_v = fields', typeName = ''JSON object'', stringFn = fn_mapValueString, encodeFn = None,
     setFn = fn_mapValueSet, decodeFn = None, isBool = False\<rparr>"

definition newStructValue :: "rvalue \<Rightarrow> nat list \<Rightarrow> StructField list \<Rightarrow> Value option" where
  "newStructValue b fieldsIndexes' fields' = Some \<lparr>base = Some b, fieldsIndexes = fieldsIndexes',
     fields_v = fields', typeName = ''JSON object'', stringFn = fn_structValueString, encodeFn = None,
     setFn = fn_structValueSet, decodeFn = None, isBool = False\<rparr>"

definition newBoolSliceValue :: "rvalue \<Rightarrow> nat list \<Rightarrow> StructField list \<Rightarrow> Value option" where
  "newBoolSliceValue b fieldsIndexes' fields' = Some \<lparr>base = Some b, fieldsIndexes = fieldsIndexes',
     fields_v = fields', typeName = ''bool (JSON list)'', stringFn = fn_sliceValueString, encodeFn = None,
     setFn = fn_boolSliceValueSet, decodeFn = None, isBool = True\<rparr>"

definition newIntSliceValue :: "rvalue \<Rightarrow> nat list \<Rightarrow> StructField list \<Rightarrow> Value option" where
  "newIntSliceValue b fieldsIndexes' fields' = Some \<lparr>base = Some b, fieldsIndexes = fieldsIndexes',
     fields_v = fields', typeName = ''int (JSON list)'', stringFn = fn_sliceValueString, encodeFn = None,
     setFn = fn_intSliceValueSet, decodeFn = None, isBool = False\<rparr>"

definition newInt8SliceValue :: "rvalue \<Rightarrow> nat list \<Rightarrow> StructField list \<Rightarrow> Value option" where
  "newInt8SliceValue b fieldsIndexes' fields' = Some \<lparr>base = Some b, fieldsIndexes = fieldsIndexes',
     fields_v = fields', typeName = ''int8 (JSON list)'', stringFn = fn_sliceValueString, encodeFn = None,
     setFn = fn_int8SliceValueSet, decodeFn = None, isBool = False\<rparr>"

definition newInt16SliceValue :: "rvalue \<Rightarrow> nat list \<Rightarrow> StructField list \<Rightarrow> Value option" where
  "newInt16SliceValue b fieldsIndexes' fields' = Some \<lparr>base = Some b, fieldsIndexes = fieldsIndexes',
     fields_v = fields', typeName = ''int16 (JSON list)'', stringFn = fn_sliceValueString, encodeFn = None,
     setFn = fn_int16SliceValueSet, decodeFn = None, isBool = False\<rparr>"

definition newInt32SliceValue :: "rvalue \<Rightarrow> nat list \<Rightarrow> StructField list \<Rightarrow> Value option" where
  "newInt32SliceValue b fieldsIndexes' fields' = Some \<lparr>base = Some b, fieldsIndexes = fieldsIndexes',
     fields_v = fields', typeName = ''int32 (JSON list)'', stringFn = fn_sliceValueString, encodeFn = None,
     setFn = fn_int32SliceValueSet, decodeFn = None, isBool = False\<rparr>"

definition newInt64SliceValue :: "rvalue \<Rightarrow> nat list \<Rightarrow> StructField list \<Rightarrow> Value option" where
  "newInt64SliceValue b fieldsIndexes' fields' = Some \<lparr>base = Some b, fieldsIndexes = fieldsIndexes',
     fields_v = fields', typeName = ''int64 (JSON list)'', stringFn = fn_sliceValueString, encodeFn = None,
     setFn = fn_int64SliceValueSet, decodeFn = None, isBool = False\<rparr>"

definition newUintSliceValue :: "rvalue \<Rightarrow> nat list \<Rightarrow> StructField list \<Rightarrow> Value option" where
  "newUintSliceValue b fieldsIndexes' fields' = Some \<lparr>base = Some b, fieldsIndexes = fieldsIndexes',
     fields_v = fields', typeName = ''uint (JSON list)'', stringFn = fn_sliceValueString, encodeFn = None,
     setFn = fn_uintSliceValueSet, decodeFn = None, isBool = False\<rparr>"

definition newUint8SliceValue :: "rvalue \<Rightarrow> nat list \<Rightarrow> StructField list \<Rightarrow> Value option" where
  "newUint8SliceValue b fieldsIndexes' fields' = Some \<lparr>base = Some b, fieldsIndexes = fieldsIndexes',
     fields_v = fields', typeName = ''uint8 (JSON list)'', stringFn = fn_sliceValueString, encodeFn = None,
     setFn = fn_uint8SliceValueSet, decodeFn = None, isBool = False\<rparr>"

definition newUint16SliceValue :: "rvalue \<Rightarrow> nat list \<Rightarrow> StructField list \<Rightarrow> Value option" where
  "newUint16SliceValue b fieldsIndexes' fields' = Some \<lparr>base = Some b, fieldsIndexes = fieldsIndexes',
     fields_v = fields', typeName = ''uint16 (JSON list)'', stringFn = fn_sliceValueString, encodeFn = None,
     setFn = fn_uint16SliceValueSet, decodeFn = None, isBool = False\<rparr>"

definition newUint32SliceValue :: "rvalue \<Rightarrow> nat list \<Rightarrow> StructField list \<Rightarrow> Value option" where
  "newUint32SliceValue b fieldsIndexes' fields' = Some \<lparr>base = Some b, fieldsIndexes = fieldsIndexes',
     fields_v = fields', typeName = ''uint32 (JSON list)'', stringFn = fn_sliceValueString, encodeFn = None,
     setFn = fn_uint32SliceValueSet, decodeFn = None, isBool = False\<rparr>"

definition newUint64SliceValue :: "rvalue \<Rightarrow> nat list \<Rightarrow> StructField list \<Rightarrow> Value option" where
  "newUint64SliceValue b fieldsIndexes' fields' = Some \<lparr>base = Some b, fieldsIndexes = fieldsIndexes',
     fields_v = fields', typeName = ''uint64 (JSON list)'', stringFn = fn_sliceValueString, encodeFn = None,
     setFn = fn_uint64SliceValueSet, decodeFn = None, isBool = False\<rparr>"

definition newFloat32SliceValue :: "rvalue \<Rightarrow> nat list \<Rightarrow> StructField list \<Rightarrow> Value option" where
  "newFloat32SliceValue b fieldsIndexes' fields' = Some \<lparr>base = Some b, fieldsIndexes = fieldsIndexes',
     fields_v = fields', typeName = ''float32 (JSON list)'', stringFn = fn_sliceValueString, encodeFn = None,
     setFn = fn_float32SliceValueSet, decodeFn = None, isBool = False\<rparr>"

definition newFloat64SliceValue :: "rvalue \<Rightarrow> nat list \<Rightarrow> StructField list \<Rightarrow> Value option" where
  "newFloat64SliceValue b fieldsIndexes' fields' = Some \<lparr>base = Some b, fieldsIndexes = fieldsIndexes',
     fields_v = fields', typeName = ''float64 (JSON list)'', stringFn = fn_sliceValueString, encodeFn = None,
     setFn = fn_float64SliceValueSet, decodeFn = None, isBool = False\<rparr>"

definition newComplex64SliceValue :: "rvalue \<Rightarrow> nat list \<Rightarrow> StructField list \<Rightarrow> Value option" where
  "newComplex64SliceValue b fieldsIndexes' fields' = Some \<lparr>base = Some b, fieldsIndexes = fieldsIndexes',
     fields_v = fields', typeName = ''complex64 (JSON list)'', stringFn = fn_complex64SliceValueString, encodeFn = None,
     setFn = fn_complex64SliceValueSet, decodeFn = None, isBool = False\<rparr>"

definition newComplex128SliceValue :: "rvalue \<Rightarrow> nat list \<Rightarrow> StructField list \<Rightarrow> Value option" where
  "newComplex128SliceValue b fieldsIndexes' fields' = Some \<lparr>base = Some b, fieldsIndexes = fieldsIndexes',
     fields_v = fields', typeName = ''complex128 (JSON list)'', stringFn = fn_complex128SliceValueString, encodeFn = None,
     setFn = fn_complex128SliceValueSet, decodeFn = None, isBool = False\<rparr>"

definition newStringSliceValue :: "rvalue \<Rightarrow> nat list \<Rightarrow> StructField list \<Rightarrow> Value option" where
  "newStringSliceValue b fieldsIndexes' fields' = Some \<lparr>base = Some b, fieldsIndexes = fieldsIndexes',
     fields_v = fields', typeName = ''string (JSON list)'', stringFn = fn_sliceValueString, encodeFn = None,
     setFn = fn_stringSliceValueSet, decodeFn = None, isBool = False\<rparr>"

definition newBytesSliceValue :: "rvalue \<Rightarrow> nat list \<Rightarrow> StructField list \<Rightarrow> Value option" where
  "newBytesSliceValue b fieldsIndexes' fields' = Some \<lparr>base = Some b, fieldsIndexes = fieldsIndexes',
     fields_v = fields', typeName = ''base64 (JSON list)'', stringFn = fn_sliceValueString, encodeFn = None,
     setFn = fn_bytesSliceValueSet, decodeFn = None, isBool = False\<rparr>"

definition newSliceSliceValue :: "rvalue \<Rightarrow> nat list \<Rightarrow> StructField list \<Rightarrow> Value option" where
  "newSliceSliceValue b fieldsIndexes' fields' = Some \<lparr>base = Some b, fieldsIndexes = fieldsIndexes',
     fields_v = fields', typeName = ''JSON list'', stringFn = fn_sliceValueString, encodeFn = None,
     setFn = fn_sliceSliceValueSet, decodeFn = None, isBool = False\<rparr>"

definition newMapSliceValue :: "rvalue \<Rightarrow> nat list \<Rightarrow> StructField list \<Rightarrow> Value option" where
  "newMapSliceValue b fieldsIndexes' fields' = Some \<lparr>base = Some b, fieldsIndexes = fieldsIndexes',
     fields_v = fields', typeName = ''JSON object (JSON list)'', stringFn = fn_sliceValueString, encodeFn = None,
     setFn = fn_mapSliceValueSet, decodeFn = None, isBool = False\<rparr>"

definition newStructSliceValue :: "rvalue \<Rightarrow> nat list \<Rightarrow> StructField list \<Rightarrow> Value option" where
  "newStructSliceValue b fieldsIndexes' fields' = Some \<lparr>base = Some b, fieldsIndexes = fieldsIndexes',
     fields_v = fields', typeName = ''JSON object (JSON list)'', stringFn = fn_sliceValueString, encodeFn = None,
     setFn = fn_structSliceValueSet, decodeFn = None, isBool = False\<rparr>"

definition newSliceValue :: "rtype \<Rightarrow> rvalue \<Rightarrow> nat list \<Rightarrow> StructField list \<Rightarrow> Value option" where
  "newSliceValue typ b fieldsIndexes' fields' =
    (let t = Elem_t typ;
         t = (if KindOf t = PointerKind then Elem_t t else t)
     in case KindOf t of
     BoolKind \<Rightarrow> newBoolSliceValue b fieldsIndexes' fields'
   | IntKind \<Rightarrow> newIntSliceValue b fieldsIndexes' fields'
   | Int8Kind \<Rightarrow> newInt8SliceValue b fieldsIndexes' fields'
   | Int16Kind \<Rightarrow> newInt16SliceValue b fieldsIndexes' fields'
   | Int32Kind \<Rightarrow> newInt32SliceValue b fieldsIndexes' fields'
   | Int64Kind \<Rightarrow> newInt64SliceValue b fieldsIndexes' fields'
   | UintKind \<Rightarrow> newUintSliceValue b fieldsIndexes' fields'
   | Uint8Kind \<Rightarrow>
       if KindOf (Elem_t typ) = Uint8Kind then newBytesValue b fieldsIndexes' fields'
       else newUint8SliceValue b fieldsIndexes' fields'
   | Uint16Kind \<Rightarrow> newUint16SliceValue b fieldsIndexes' fields'
   | Uint32Kind \<Rightarrow> newUint32SliceValue b fieldsIndexes' fields'
   | Uint64Kind \<Rightarrow> newUint64SliceValue b fieldsIndexes' fields'
   | Float32Kind \<Rightarrow> newFloat32SliceValue b fieldsIndexes' fields'
   | Float64Kind \<Rightarrow> newFloat64SliceValue b fieldsIndexes' fields'
   | Complex64Kind \<Rightarrow> newComplex64SliceValue b fieldsIndexes' fields'
   | Complex128Kind \<Rightarrow> newComplex128SliceValue b fieldsIndexes' fields'
   | StringKind \<Rightarrow> newStringSliceValue b fieldsIndexes' fields'
   | SliceKind \<Rightarrow>
       if KindOf (Elem_t t) = Uint8Kind then newBytesSliceValue b fieldsIndexes' fields'
       else newSliceSliceValue b fieldsIndexes' fields'
   | MapKind \<Rightarrow> newMapSliceValue b fieldsIndexes' fields'
   | StructKind \<Rightarrow> newStructSliceValue b fieldsIndexes' fields'
   | _ \<Rightarrow> None)"

definition newValue :: "rvalue \<Rightarrow> nat list \<Rightarrow> StructField list \<Rightarrow> Value option" where
  "newValue b fieldsIndexes' fields' =
    (let t = Type_v b;
         t = (if length fields' > 0 then Type (last fields') else t);
         t = (if KindOf t = PointerKind then Elem_t t else t)
     in case KindOf t of
     BoolKind \<Rightarrow> newBoolValue b fieldsIndexes' fields'
   | IntKind \<Rightarrow> newIntValue b fieldsIndexes' fields'
   | Int8Kind \<Rightarrow> newInt8Value b fieldsIndexes' fields'
   | Int16Kind \<Rightarrow> newInt16Value b fieldsIndexes' fields'
   | Int32Kind \<Rightarrow> newInt32Value b fieldsIndexes' fields'
   | Int64Kind \<Rightarrow> newInt64Value b fieldsIndexes' fields'
   | UintKind \<Rightarrow> newUintValue b fieldsIndexes' fields'
   | Uint8Kind \<Rightarrow> newUint8Value b fieldsIndexes' fields'
   | Uint16Kind \<Rightarrow> newUint16Value b fieldsIndexes' fields'
   | Uint32Kind \<Rightarrow> newUint32Value b fieldsIndexes' fields'
   | Uint64Kind \<Rightarrow> newUint64Value b fieldsIndexes' fields'
   | Float32Kind \<Rightarrow> newFloat32Value b fieldsIndexes' fields'
   | Float64Kind \<Rightarrow> newFloat64Value b fieldsIndexes' fields'
   | Complex64Kind \<Rightarrow> newComplex64Value b fieldsIndexes' fields'
   | Complex128Kind \<Rightarrow> newComplex128Value b fieldsIndexes' fields'
   | StringKind \<Rightarrow> newStringValue b fieldsIndexes' fields'
   | SliceKind \<Rightarrow> newSliceValue t b fieldsIndexes' fields'
   | MapKind \<Rightarrow> newMapValue b fieldsIndexes' fields'
   | StructKind \<Rightarrow> newStructValue b fieldsIndexes' fields'
   | _ \<Rightarrow> None)"

text \<open>The interface value \<^verbatim>\<open>base any\<close>: the nil interface, or a value with its
  dynamic type.\<close>

datatype any = NilAny | Any rtype gval

definition New :: "any \<Rightarrow> Value option" where
  "New b =
    (case b of
       NilAny \<Rightarrow> None
     | Any t r \<Rightarrow>
         let v = ValueOf_root t
         in if \<not> CanSet v \<and> (Kind_v v \<noteq> PointerKind \<or> IsNil v r) then None
            else newValue v [] [])"

subsection \<open>Filters\<close>

type_synonym FilterResult = "32 word"

type_synonym FilterFunc = "Value option \<Rightarrow> FilterResult"

definition IncludeAndDescend :: FilterResult where "IncludeAndDescend = 0"
definition IncludeNoDescend :: FilterResult where "IncludeNoDescend = 1"
definition SkipNoDescend :: FilterResult where "SkipNoDescend = 3"
definition noDescendMask :: FilterResult where "noDescendMask = 1"
definition skipMask :: FilterResult where "skipMask = 2"

definition Filter :: "Value option \<Rightarrow> FilterFunc list \<Rightarrow> FilterResult" where
  "Filter val filters =
    (if val = None then SkipNoDescend
     else foldl (\<lambda>r cond. r OR cond val) 0 filters)"

subsection \<open>Recursive\<close>

text \<open>The type of the position a call of \<^verbatim>\<open>recursive\<close> stands at: the last field's type,
  or the type of the base for the empty path (the first lines of \<^verbatim>\<open>newValue\<close> and the
  middle of \<^verbatim>\<open>recursive\<close> compute it in the same way).\<close>

definition posType :: "rvalue \<Rightarrow> StructField list \<Rightarrow> rtype" where
  "posType b fields' = (if length fields' > 0 then Type (last fields') else Type_v b)"

lemma size_Field_t:
  "KindOf t = StructKind \<Longrightarrow> i < NumField t \<Longrightarrow> size (Type (Field_t t i)) < size t"
  by (cases t) (simp_all add: size_Type_field)

lemma size_Elem_t: "size (Elem_t t) \<le> size t"
  by (cases t) simp_all

text \<open>\<^verbatim>\<open>slices.Clone\<close>, \<^verbatim>\<open>append(fieldsIndexes, i)\<close> and \<^verbatim>\<open>append(fields, field)\<close>
  build new lists; the loop over \<^verbatim>\<open>range t.NumField()\<close> is a left fold that carries
  \<^verbatim>\<open>values\<close>.\<close>

lemma posType_snoc: "posType b (fs @ [f]) = Type f"
  by (simp add: posType_def)

lemma size_Field_Elem_t:
  assumes "KindOf (Elem_t T) = StructKind" and "i < NumField (Elem_t T)"
  shows "size (Type (Field_t (Elem_t T) i)) < size T"
proof -
  have "size (Type (Field_t (Elem_t T) i)) < size (Elem_t T)"
    using assms by (rule size_Field_t)
  also have "\<dots> \<le> size T"
    by (rule size_Elem_t)
  finally show ?thesis .
qed

function recursive ::
  "rvalue \<Rightarrow> nat list \<Rightarrow> StructField list \<Rightarrow> FilterFunc list \<Rightarrow> Value option list" where
  "recursive b fieldsIndexes' fields' filters =
    (let val = newValue b fieldsIndexes' fields';
         filterResult = Filter val filters;
         values = (if filterResult AND skipMask = 0 then [val] else [])
     in if filterResult AND noDescendMask \<noteq> 0 then values
        else
          let t = posType b fields';
              t = (if KindOf t = PointerKind then Elem_t t else t)
          in if KindOf t \<noteq> StructKind then values
             else foldl (\<lambda>values i.
                     let field = Field_t t i
                     in if \<not> IsExported field then values
                        else values @ recursive b (fieldsIndexes' @ [i]) (fields' @ [field]) filters)
                   values [0..<NumField t])"
  by pat_completeness auto
termination
proof (relation "measure (\<lambda>(b, ix, fs, filters). size (posType b fs))", goal_cases)
  case 1
  show ?case by simp
next
  case prems: 2
  show ?case
    using prems by (auto simp: posType_snoc size_Field_Elem_t size_Field_t split: if_splits)
qed

definition Recursive :: "any \<Rightarrow> FilterFunc list \<Rightarrow> Value option list" where
  "Recursive b filters =
    (case b of
       NilAny \<Rightarrow> []
     | Any t r \<Rightarrow>
         let v = ValueOf_root t
         in if \<not> CanSet v \<and> (Kind_v v \<noteq> PointerKind \<or> IsNil v r) then []
            else recursive v [] [] filters)"

subsection \<open>The methods that read a flag value\<close>

definition isInitialized :: "Value option \<Rightarrow> bool" where
  "isInitialized val = (val \<noteq> None \<and> base (the val) \<noteq> None)"


definition Type_name :: "Value option \<Rightarrow> string" where
  "Type_name val = (if \<not> isInitialized val then [] else typeName (the val))"

definition IsBoolFlag :: "Value option \<Rightarrow> bool" where
  "IsBoolFlag val = (if \<not> isInitialized val then False else isBool (the val))"

text \<open>Definitions used to state the properties of \<^verbatim>\<open>recursive\<close>: the pointer-unwrapped
  type (the source's \<^verbatim>\<open>elemIfPtrType\<close>), the indexes of the exported fields of a struct
  type in declaration order, and what it means for a path of field indexes and field
  descriptors to be a path of exported, declared fields from a type.\<close>

definition elemIfPtrType :: "rtype \<Rightarrow> rtype" where
  "elemIfPtrType t = (if KindOf t \<noteq> PointerKind then t else Elem_t t)"

definition exportedFields :: "rtype \<Rightarrow> nat list" where
  "exportedFields t = filter (\<lambda>i. IsExported (Field_t t i)) [0..<NumField t]"

fun path_ok :: "rtype \<Rightarrow> nat list \<Rightarrow> StructField list \<Rightarrow> bool" where
  "path_ok t [] [] = True"
| "path_ok t (i # ix) (f # fs) =
     (KindOf (elemIfPtrType t) = StructKind \<and> i < NumField (elemIfPtrType t) \<and>
      f = Field_t (elemIfPtrType t) i \<and> IsExported f \<and> path_ok (Type f) ix fs)"
| "path_ok t ix fs = False"


definition fresh_node :: "rvalue \<Rightarrow> nat list \<Rightarrow> StructField list \<Rightarrow> Value option \<Rightarrow> bool" where
  "fresh_node b ix fs val = (case val of None \<Rightarrow> True | Some v \<Rightarrow>
     base v = Some b \<and> fieldsIndexes v = ix \<and> fields_v v = fs
     \<and> encodeFn v = None \<and> decodeFn v = None)"

text \<open>A small configuration type for the concrete checks: an exported string, an
  unexported int and an exported pointer to a struct with one bool.
  \<^verbatim>\<open>struct { A string; b int; C *struct{ D bool } }\<close>\<close>

definition exT :: rtype where
  "exT = StructT [StructField ''A'' [] StringT [], StructField ''b'' ''pkg'' IntT [],
     StructField ''C'' [] (PointerT (StructT [StructField ''D'' [] BoolT []])) []]"

definition exRoot :: any where
  "exRoot = Any (PointerT exT) (VPtr (Some (VStruct [VString [], VInt 0, VPtr None])))"

section \<open>The methods of reflect.Value the program calls\<close>

text \<open>\<^verbatim>\<open>reflect.New\<close>, \<^verbatim>\<open>reflect.Zero\<close>, \<^verbatim>\<open>reflect.MakeMap\<close> and
  \<^verbatim>\<open>reflect.MakeSlice(t, 0, 0)\<close>.\<close>

definition New_v :: "rtype \<Rightarrow> rvalue" where
  "New_v t = Temp (PointerT t) (VPtr (Some (zero t)))"

definition Zero_v :: "rtype \<Rightarrow> rvalue" where
  "Zero_v t = Temp t (zero t)"

definition MakeMap :: "rtype \<Rightarrow> rvalue" where
  "MakeMap t = Temp t (VMap (Some []))"

definition MakeSlice :: "rtype \<Rightarrow> rvalue" where
  "MakeSlice t = Temp t (VSlice (Some []))"

text \<open>\<^verbatim>\<open>Value.Elem()\<close> of a pointer: the variable it points to. For a nil pointer Go returns
  the zero \<^verbatim>\<open>Value\<close>, for a value that is no pointer it panics; both are \<open>None\<close>.\<close>

fun Elem_v :: "rvalue \<Rightarrow> gval \<Rightarrow> rvalue option" where
  "Elem_v (InStore t p c) s =
     (case (t, store_get p s) of
        (PointerT t', Some (VPtr (Some x))) \<Rightarrow> Some (InStore t' (p @ [Deref]) True)
      | _ \<Rightarrow> None)"
| "Elem_v (Temp t v) s =
     (case (t, v) of
        (PointerT t', VPtr (Some x)) \<Rightarrow> Some (Temp t' x)
      | _ \<Rightarrow> None)"

text \<open>\<^verbatim>\<open>Value.Field(i)\<close>: panics unless the value is a struct with more than \<open>i\<close> fields.
  The field of a settable struct is settable when it is exported.\<close>

fun Field_v :: "rvalue \<Rightarrow> nat \<Rightarrow> rvalue option" where
  "Field_v (InStore t p c) i =
     (case t of
        StructT fs \<Rightarrow>
          if i < length fs
          then Some (InStore (Type (fs ! i)) (p @ [FieldAt i]) (c \<and> IsExported (fs ! i)))
          else None
      | _ \<Rightarrow> None)"
| "Field_v (Temp t v) i =
     (case (t, v) of
        (StructT fs, VStruct vs) \<Rightarrow>
          if i < length fs \<and> i < length vs then Some (Temp (Type (fs ! i)) (vs ! i)) else None
      | _ \<Rightarrow> None)"

text \<open>\<^verbatim>\<open>dst.Set(src)\<close>: panics unless \<open>dst\<close> is settable and the type of \<open>src\<close> is
  assignable to it; otherwise the store holds the value of \<open>src\<close> at the position of
  \<open>dst\<close>.\<close>

fun Set_v :: "rvalue \<Rightarrow> rvalue \<Rightarrow> gval \<Rightarrow> gval option" where
  "Set_v (InStore t p c) src s =
     (if c \<and> Type_v src = t
      then (case Interface src s of Some x \<Rightarrow> store_set p x s | None \<Rightarrow> None)
      else None)"
| "Set_v (Temp t v) src s = None"

text \<open>\<^verbatim>\<open>Value.Addr()\<close>. The program takes the address of values outside the store only
  (after \<^verbatim>\<open>addressable\<close>); the one address of a store position, in \<^verbatim>\<open>Set\<close> with a custom
  decoder, is modelled there.\<close>

fun Addr :: "rvalue \<Rightarrow> rvalue option" where
  "Addr (Temp t v) = Some (Temp (PointerT t) (VPtr (Some v)))"
| "Addr (InStore t p c) = None"

text \<open>\<^verbatim>\<open>reflect.Append(s, x)\<close> with one element: panics unless \<open>s\<close> is a slice and the
  type of \<open>x\<close> is its element type. The result is a new slice value.\<close>

definition Append :: "rvalue \<Rightarrow> rvalue \<Rightarrow> gval \<Rightarrow> rvalue option" where
  "Append slc x s =
     (case (Type_v slc, Interface slc s, Interface x s) of
        (SliceT t, Some (VSlice xs), Some v) \<Rightarrow>
          if Type_v x = t
          then Some (Temp (SliceT t) (VSlice (Some ((case xs of None \<Rightarrow> [] | Some ys \<Rightarrow> ys) @ [v]))))
          else None
      | _ \<Rightarrow> None)"

text \<open>\<^verbatim>\<open>Value.Len()\<close> of a slice or map.\<close>

definition Len :: "rvalue \<Rightarrow> gval \<Rightarrow> nat option" where
  "Len v s =
     (case Interface v s of
        Some (VSlice None) \<Rightarrow> Some 0
      | Some (VSlice (Some xs)) \<Rightarrow> Some (length xs)
      | Some (VMap None) \<Rightarrow> Some 0
      | Some (VMap (Some kvs)) \<Rightarrow> Some (length kvs)
      | _ \<Rightarrow> None)"

section \<open>The helpers of the program\<close>

definition elemIfPtr :: "rvalue \<Rightarrow> gval \<Rightarrow> rvalue option" where
  "elemIfPtr v s =
     (if Kind_v v \<noteq> PointerKind then Some v
      else if IsNil v s then Some (Zero_v (Elem_t (Type_v v)))
      else Elem_v v s)"

text \<open>\<^verbatim>\<open>addressable\<close> copies a value that is not addressable into a fresh variable and
  returns that variable. A value outside the store carries no address in the model, so the
  copy is the value.\<close>

definition addressable :: "rvalue \<Rightarrow> rvalue" where
  "addressable v = v"

definition reflectValueSet :: "rvalue \<Rightarrow> rvalue \<Rightarrow> gval \<Rightarrow> gval option" where
  "reflectValueSet dst src s = do {
     dst \<leftarrow> (if Kind_v dst = PointerKind \<and> \<not> CanSet dst then Elem_v dst s else Some dst);
     src \<leftarrow> (if Kind_v dst = PointerKind \<and> Kind_v src \<noteq> PointerKind then Addr (addressable src)
            else if Kind_v dst \<noteq> PointerKind \<and> Kind_v src = PointerKind then Elem_v src s
            else Some src);
     Set_v dst src s
   }"

definition reflectValueAppend :: "rvalue \<Rightarrow> rvalue \<Rightarrow> gval \<Rightarrow> rvalue option" where
  "reflectValueAppend slc v s = do {
     v \<leftarrow> (if KindOf (Elem_t (elemIfPtrType (Type_v slc))) = PointerKind \<and> Kind_v v \<noteq> PointerKind
          then Addr (addressable v)
          else if KindOf (Elem_t (elemIfPtrType (Type_v slc))) \<noteq> PointerKind \<and> Kind_v v = PointerKind
          then Elem_v v s
          else Some v);
     e \<leftarrow> elemIfPtr slc s;
     a \<leftarrow> Append e v s;
     Some (addressable a)
   }"

text \<open>\<^verbatim>\<open>fieldByIndex\<close>. The test \<^verbatim>\<open>v.Kind() == reflect.Pointer && v.IsNil()\<close> followed by
  \<^verbatim>\<open>v.Set(reflect.New(v.Type().Elem()))\<close> stands three times in the source; it is written
  once here (\<open>allocIfNil\<close>). The \<^verbatim>\<open>panic\<close> of the source is \<open>None\<close>.\<close>

definition allocIfNil :: "rvalue \<Rightarrow> gval \<Rightarrow> gval option" where
  "allocIfNil v s =
     (if Kind_v v = PointerKind \<and> IsNil v s then Set_v v (New_v (Elem_t (Type_v v))) s
      else Some s)"

fun fieldByIndex_loop :: "rvalue \<Rightarrow> nat list \<Rightarrow> gval \<Rightarrow> (rvalue \<times> gval) option" where
  "fieldByIndex_loop v [] s = Some (v, s)"
| "fieldByIndex_loop v (x # index) s = do {
     (v, s) \<leftarrow> (if Kind_v v = PointerKind
                then do { s \<leftarrow> allocIfNil v s; v \<leftarrow> Elem_v v s; Some (v, s) }
                else Some (v, s));
     v \<leftarrow> Field_v v x;
     fieldByIndex_loop v index s
   }"

definition fieldByIndex :: "rvalue \<Rightarrow> nat list \<Rightarrow> gval \<Rightarrow> (rvalue \<times> gval) option" where
  "fieldByIndex v index s =
     (if length index = 0 then do { s \<leftarrow> allocIfNil v s; Some (v, s) }
      else if (Kind_v v \<noteq> PointerKind \<or> KindOf (Elem_t (Type_v v)) \<noteq> StructKind)
              \<and> Kind_v v \<noteq> StructKind
      then None
      else do {
        (v, s) \<leftarrow> fieldByIndex_loop v index s;
        s \<leftarrow> allocIfNil v s;
        Some (v, s)
      })"

text \<open>The method \<^verbatim>\<open>typ\<close> of \<^verbatim>\<open>Value\<close> (the name is taken in Isabelle).\<close>

definition typ_v :: "Value \<Rightarrow> rtype option" where
  "typ_v val = map_option (\<lambda>b. posType b (fields_v val)) (base val)"

definition get :: "Value \<Rightarrow> gval \<Rightarrow> (rvalue \<times> gval) option" where
  "get val s = do { b \<leftarrow> base val; fieldByIndex b (fieldsIndexes val) s }"

section \<open>The functions of the Go library the program calls\<close>

subsection \<open>strconv: booleans and integers\<close>

text \<open>
  \<^verbatim>\<open>strconv.ParseBool\<close>, \<^verbatim>\<open>FormatBool\<close>, \<^verbatim>\<open>ParseUint\<close>, \<^verbatim>\<open>ParseInt\<close>,
  \<^verbatim>\<open>FormatUint\<close> and \<^verbatim>\<open>FormatInt\<close> are not code of this repository; they are
  written here after the Go standard library (\<^verbatim>\<open>strconv/atob.go\<close>, \<^verbatim>\<open>atoi.go\<close>,
  \<^verbatim>\<open>itoa.go\<close>), with their pair results (value, error). A \<^verbatim>\<open>uint64\<close> is a natural
  number with the wrap-around written out, \<^verbatim>\<open>strconv.IntSize\<close> is 64.
\<close>

definition IntSize :: nat where
  "IntSize = 64"

definition maxUint64 :: nat where
  "maxUint64 = 2 ^ 64 - 1"

definition fnParseUint :: string where "fnParseUint = ''ParseUint''"
definition fnParseInt :: string where "fnParseInt = ''ParseInt''"

definition syntaxError :: "string \<Rightarrow> string \<Rightarrow> error" where
  "syntaxError fn str = NumError fn str ErrSyntax"

definition rangeError :: "string \<Rightarrow> string \<Rightarrow> error" where
  "rangeError fn str = NumError fn str ErrRange"

definition baseError :: "string \<Rightarrow> string \<Rightarrow> nat \<Rightarrow> error" where
  "baseError fn str b = NumError fn str (ErrBase b)"

definition bitSizeError :: "string \<Rightarrow> string \<Rightarrow> nat \<Rightarrow> error" where
  "bitSizeError fn str b = NumError fn str (ErrBitSize b)"

definition ParseBool :: "string \<Rightarrow> bool \<times> error option" where
  "ParseBool str =
     (if str \<in> set [''1'', ''t'', ''T'', ''true'', ''TRUE'', ''True''] then (True, None)
      else if str \<in> set [''0'', ''f'', ''F'', ''false'', ''FALSE'', ''False''] then (False, None)
      else (False, Some (syntaxError ''ParseBool'' str)))"

definition FormatBool :: "bool \<Rightarrow> string" where
  "FormatBool b = (if b then ''true'' else ''false'')"

definition byte :: "char \<Rightarrow> nat" where
  "byte c = of_char c"

text \<open>\<^verbatim>\<open>lower(c)\<close> is \<^verbatim>\<open>c | ('x' - 'X')\<close>.\<close>

definition lower :: "char \<Rightarrow> char" where
  "lower c = char_of (byte c OR 32)"

text \<open>\<^verbatim>\<open>underscoreOK\<close>: underscores must separate digits (a base prefix counts as a
  digit). \<open>saw\<close> is the last character class seen, as in the source.\<close>

fun underscoreOK_loop :: "bool \<Rightarrow> char \<Rightarrow> string \<Rightarrow> bool" where
  "underscoreOK_loop hex saw [] = (saw \<noteq> CHR ''_'')"
| "underscoreOK_loop hex saw (c # cs) =
     (if (byte CHR ''0'' \<le> byte c \<and> byte c \<le> byte CHR ''9'')
         \<or> (hex \<and> byte CHR ''a'' \<le> byte (lower c) \<and> byte (lower c) \<le> byte CHR ''f'')
      then underscoreOK_loop hex CHR ''0'' cs
      else if c = CHR ''_''
      then (if saw \<noteq> CHR ''0'' then False else underscoreOK_loop hex CHR ''_'' cs)
      else if saw = CHR ''_'' then False
      else underscoreOK_loop hex CHR ''!'' cs)"

definition underscoreOK :: "string \<Rightarrow> bool" where
  "underscoreOK s0 =
     (let s = (if length s0 \<ge> 1 \<and> (hd s0 = CHR ''-'' \<or> hd s0 = CHR ''+'') then tl s0 else s0)
      in if length s \<ge> 2 \<and> hd s = CHR ''0'' \<and>
            (lower (s ! 1) = CHR ''b'' \<or> lower (s ! 1) = CHR ''o'' \<or> lower (s ! 1) = CHR ''x'')
         then underscoreOK_loop (lower (s ! 1) = CHR ''x'') CHR ''0'' (drop 2 s)
         else underscoreOK_loop False CHR ''^'' s)"

text \<open>The loop of \<^verbatim>\<open>ParseUint\<close> over the bytes of the digits: \<open>Inl\<close> is the early
  return (value, error), \<open>Inr\<close> the state after the last byte.\<close>

fun ParseUint_loop ::
  "string \<Rightarrow> nat \<Rightarrow> bool \<Rightarrow> nat \<Rightarrow> nat \<Rightarrow> string \<Rightarrow> nat \<Rightarrow> bool \<Rightarrow> (nat \<times> error) + (nat \<times> bool)" where
  "ParseUint_loop s0 base' base0 cutoff maxVal [] n underscores = Inr (n, underscores)"
| "ParseUint_loop s0 base' base0 cutoff maxVal (c # cs) n underscores =
     (if c = CHR ''_'' \<and> base0 then ParseUint_loop s0 base' base0 cutoff maxVal cs n True
      else
        case (if byte CHR ''0'' \<le> byte c \<and> byte c \<le> byte CHR ''9''
              then Some (byte c - byte CHR ''0'')
              else if byte CHR ''a'' \<le> byte (lower c) \<and> byte (lower c) \<le> byte CHR ''z''
              then Some (byte (lower c) - byte CHR ''a'' + 10)
              else None) of
          None \<Rightarrow> Inl (0, syntaxError fnParseUint s0)
        | Some d \<Rightarrow>
            if d \<ge> base' then Inl (0, syntaxError fnParseUint s0)
            else if n \<ge> cutoff then Inl (maxVal, rangeError fnParseUint s0)
            else
              let n' = (n * base') mod 2 ^ 64;
                  n1 = (n' + d) mod 2 ^ 64
              in if n1 < n' \<or> n1 > maxVal then Inl (maxVal, rangeError fnParseUint s0)
                 else ParseUint_loop s0 base' base0 cutoff maxVal cs n1 underscores)"

definition ParseUint :: "string \<Rightarrow> nat \<Rightarrow> nat \<Rightarrow> nat \<times> error option" where
  "ParseUint s base' bitSize =
     (if s = [] then (0, Some (syntaxError fnParseUint s))
      else
        let base0 = (base' = 0); s0 = s
        in case (if 2 \<le> base' \<and> base' \<le> 36 then Inr (base', s)
                 else if base' = 0
                 then Inr (if hd s = CHR ''0''
                           then (if length s \<ge> 3 \<and> lower (s ! 1) = CHR ''b'' then (2, drop 2 s)
                                 else if length s \<ge> 3 \<and> lower (s ! 1) = CHR ''o'' then (8, drop 2 s)
                                 else if length s \<ge> 3 \<and> lower (s ! 1) = CHR ''x'' then (16, drop 2 s)
                                 else (8, drop 1 s))
                           else (10, s))
                 else Inl (baseError fnParseUint s0 base')) of
             Inl e \<Rightarrow> (0, Some e)
           | Inr (base', s) \<Rightarrow>
               if bitSize > 64 then (0, Some (bitSizeError fnParseUint s0 bitSize))
               else
                 let bitSize = (if bitSize = 0 then IntSize else bitSize);
                     cutoff = maxUint64 div base' + 1;
                     maxVal = 2 ^ bitSize - 1
                 in case ParseUint_loop s0 base' base0 cutoff maxVal s 0 False of
                      Inl (v, e) \<Rightarrow> (v, Some e)
                    | Inr (n, underscores) \<Rightarrow>
                        if underscores \<and> \<not> underscoreOK s0
                        then (0, Some (syntaxError fnParseUint s0))
                        else (n, None))"

text \<open>The conversion of an integer to a signed type of \<open>w\<close> bits, as \<^verbatim>\<open>int8(v)\<close> does
  it, and to an unsigned one.\<close>

definition toInt :: "nat \<Rightarrow> int \<Rightarrow> int" where
  "toInt w i = (i + 2 ^ (w - 1)) mod 2 ^ w - 2 ^ (w - 1)"

definition toUint :: "nat \<Rightarrow> nat \<Rightarrow> nat" where
  "toUint w n = n mod 2 ^ w"

definition ParseInt :: "string \<Rightarrow> nat \<Rightarrow> nat \<Rightarrow> int \<times> error option" where
  "ParseInt s base' bitSize =
     (if s = [] then (0, Some (syntaxError fnParseInt s))
      else
        let s0 = s;
            (neg, s) = (if hd s = CHR ''+'' then (False, tl s)
                        else if hd s = CHR ''-'' then (True, tl s)
                        else (False, s));
            (un, err) = ParseUint s base' bitSize
        in case (case err of
                   Some (NumError f n k) \<Rightarrow> if k \<noteq> ErrRange then Some (NumError fnParseInt s0 k) else None
                 | Some e \<Rightarrow> Some e
                 | None \<Rightarrow> None) of
             Some e \<Rightarrow> (0, Some e)
           | None \<Rightarrow>
               let bitSize = (if bitSize = 0 then IntSize else bitSize);
                   cutoff = 2 ^ (bitSize - 1)
               in if \<not> neg \<and> un \<ge> cutoff then (int cutoff - 1, Some (rangeError fnParseInt s0))
                  else if neg \<and> un > cutoff then (- int cutoff, Some (rangeError fnParseInt s0))
                  else
                    let n = toInt 64 (int un)
                    in (if neg then toInt 64 (- n) else n, None))"

text \<open>\<^verbatim>\<open>FormatUint\<close> and \<^verbatim>\<open>FormatInt\<close>: the digits of the number in the base, lower
  case, most significant first, after a minus sign for a negative number. (Go panics for a
  base outside 2..36; the program passes 10.)\<close>

definition digitChar :: "nat \<Rightarrow> char" where
  "digitChar d = ''0123456789abcdefghijklmnopqrstuvwxyz'' ! d"

function digits :: "nat \<Rightarrow> nat \<Rightarrow> string" where
  "digits b n = (if b < 2 \<or> n < b then [digitChar n] else digits b (n div b) @ [digitChar (n mod b)])"
  by pat_completeness auto
termination
  by (relation "measure (\<lambda>(b, n). n)") auto

definition FormatUint :: "nat \<Rightarrow> nat \<Rightarrow> string" where
  "FormatUint n b = digits b n"

definition FormatInt :: "int \<Rightarrow> nat \<Rightarrow> string" where
  "FormatInt i b = (if i < 0 then CHR ''-'' # digits b (nat (- i)) else digits b (nat i))"

subsection \<open>Floating point, base64 and JSON\<close>

text \<open>
  The float and complex parsers and formatters of \<^verbatim>\<open>strconv\<close>, \<^verbatim>\<open>encoding/base64\<close>
  and \<^verbatim>\<open>encoding/json\<close> are parameters of the model (\<open>extern\<close>): the program only passes
  their results on. \<^verbatim>\<open>FormatFloat\<close> and \<^verbatim>\<open>FormatComplex\<close> are called with format
  \<^verbatim>\<open>'g'\<close> and precision -1 only, so these two arguments are left out.
  \<^verbatim>\<open>json.Unmarshal(data, ptr)\<close> gets the text, the type and the content of what the
  pointer points to, and returns its error and the content it leaves there.
\<close>

record extern =
  strconv_ParseFloat :: "string \<Rightarrow> nat \<Rightarrow> 64 word \<times> error option"
  strconv_FormatFloat :: "64 word \<Rightarrow> nat \<Rightarrow> string"
  strconv_ParseComplex :: "string \<Rightarrow> nat \<Rightarrow> (64 word \<times> 64 word) \<times> error option"
  strconv_FormatComplex :: "64 word \<times> 64 word \<Rightarrow> nat \<Rightarrow> string"
  base64_EncodeToString :: "nat list \<Rightarrow> string"
  base64_DecodeString :: "string \<Rightarrow> nat list \<times> error option"
  json_Marshal :: "rtype \<Rightarrow> gval \<Rightarrow> string \<times> error option"
  json_Unmarshal :: "string \<Rightarrow> rtype \<Rightarrow> gval \<Rightarrow> error option \<times> gval"

section \<open>parse.go\<close>

definition parseInt :: "string \<Rightarrow> int \<times> error option" where
  "parseInt s = (let (v, err) = ParseInt s 0 0 in (toInt IntSize v, err))"

definition parseInt8 :: "string \<Rightarrow> int \<times> error option" where
  "parseInt8 s = (let (v, err) = ParseInt s 0 8 in (toInt 8 v, err))"

definition parseInt16 :: "string \<Rightarrow> int \<times> error option" where
  "parseInt16 s = (let (v, err) = ParseInt s 0 16 in (toInt 16 v, err))"

definition parseInt32 :: "string \<Rightarrow> int \<times> error option" where
  "parseInt32 s = (let (v, err) = ParseInt s 0 32 in (toInt 32 v, err))"

definition parseInt64 :: "string \<Rightarrow> int \<times> error option" where
  "parseInt64 s = ParseInt s 0 64"

definition parseUint :: "string \<Rightarrow> nat \<times> error option" where
  "parseUint s = (let (v, err) = ParseUint s 0 0 in (toUint IntSize v, err))"

definition parseUint8 :: "string \<Rightarrow> nat \<times> error option" where
  "parseUint8 s = (let (v, err) = ParseUint s 0 8 in (toUint 8 v, err))"

definition parseUint16 :: "string \<Rightarrow> nat \<times> error option" where
  "parseUint16 s = (let (v, err) = ParseUint s 0 16 in (toUint 16 v, err))"

definition parseUint32 :: "string \<Rightarrow> nat \<times> error option" where
  "parseUint32 s = (let (v, err) = ParseUint s 0 32 in (toUint 32 v, err))"

definition parseUint64 :: "string \<Rightarrow> nat \<times> error option" where
  "parseUint64 s = ParseUint s 0 64"

text \<open>The conversions \<^verbatim>\<open>float32(v)\<close> and \<^verbatim>\<open>complex64(v)\<close> of what the parser returns
  for bit size 32 (respectively 64) are exact; a float32 is kept as the float64 of the same
  value.\<close>

definition parseFloat32 :: "extern \<Rightarrow> string \<Rightarrow> 64 word \<times> error option" where
  "parseFloat32 E s = strconv_ParseFloat E s 32"

definition parseFloat64 :: "extern \<Rightarrow> string \<Rightarrow> 64 word \<times> error option" where
  "parseFloat64 E s = strconv_ParseFloat E s 64"

definition parseComplex64 :: "extern \<Rightarrow> string \<Rightarrow> (64 word \<times> 64 word) \<times> error option" where
  "parseComplex64 E s = strconv_ParseComplex E s 64"

definition parseComplex128 :: "extern \<Rightarrow> string \<Rightarrow> (64 word \<times> 64 word) \<times> error option" where
  "parseComplex128 E s = strconv_ParseComplex E s 128"

section \<open>The codecs: rendering\<close>

text \<open>
  Every \<^verbatim>\<open>...ValueString\<close> function reads through \<^verbatim>\<open>val.get()\<close>, which may allocate,
  so it returns the text and the store. The accessors \<^verbatim>\<open>Bool()\<close>, \<^verbatim>\<open>Int()\<close>,
  \<^verbatim>\<open>Uint()\<close>, \<^verbatim>\<open>Float()\<close> and \<^verbatim>\<open>Complex()\<close> of \<^verbatim>\<open>reflect.Value\<close> panic on a
  value of another kind.
\<close>

definition Bool_v :: "rvalue \<Rightarrow> gval \<Rightarrow> bool option" where
  "Bool_v v s = (case Interface v s of Some (VBool b) \<Rightarrow> Some b | _ \<Rightarrow> None)"

definition Int_v :: "rvalue \<Rightarrow> gval \<Rightarrow> int option" where
  "Int_v v s = (case Interface v s of Some (VInt i) \<Rightarrow> Some i | _ \<Rightarrow> None)"

definition Uint_v :: "rvalue \<Rightarrow> gval \<Rightarrow> nat option" where
  "Uint_v v s = (case Interface v s of Some (VUint n) \<Rightarrow> Some n | _ \<Rightarrow> None)"

definition Float_v :: "rvalue \<Rightarrow> gval \<Rightarrow> 64 word option" where
  "Float_v v s = (case Interface v s of Some (VFloat f) \<Rightarrow> Some f | _ \<Rightarrow> None)"

definition Complex_v :: "rvalue \<Rightarrow> gval \<Rightarrow> (64 word \<times> 64 word) option" where
  "Complex_v v s = (case Interface v s of Some (VComplex re im) \<Rightarrow> Some (re, im) | _ \<Rightarrow> None)"

definition String_v :: "rvalue \<Rightarrow> gval \<Rightarrow> string option" where
  "String_v v s = (case Interface v s of Some (VString x) \<Rightarrow> Some x | _ \<Rightarrow> None)"

text \<open>The type assertion \<^verbatim>\<open>.Interface().([]byte)\<close>.\<close>

definition Bytes_v :: "rvalue \<Rightarrow> gval \<Rightarrow> nat list option" where
  "Bytes_v v s =
     (case (Type_v v, Interface v s) of
        (SliceT Uint8T, Some (VSlice xs)) \<Rightarrow>
          Some (map (\<lambda>x. case x of VUint n \<Rightarrow> n | _ \<Rightarrow> 0) (case xs of None \<Rightarrow> [] | Some ys \<Rightarrow> ys))
      | _ \<Rightarrow> None)"

text \<open>The elements of a slice as \<^verbatim>\<open>Value.Seq2()\<close> yields them (they are only read).\<close>

definition Seq2 :: "rvalue \<Rightarrow> gval \<Rightarrow> rvalue list option" where
  "Seq2 v s =
     (case (Type_v v, Interface v s) of
        (SliceT t, Some (VSlice xs)) \<Rightarrow> Some (map (Temp t) (case xs of None \<Rightarrow> [] | Some ys \<Rightarrow> ys))
      | _ \<Rightarrow> None)"

text \<open>\<open>x == 0\<close> on a float64 holds for both zeros.\<close>

definition floatIsZero :: "64 word \<Rightarrow> bool" where
  "floatIsZero f = (f = 0 \<or> f = 0x8000000000000000)"

fun Join :: "string list \<Rightarrow> string \<Rightarrow> string" where
  "Join [] sep = []"
| "Join [x] sep = x"
| "Join (x # y # ys) sep = x @ sep @ Join (y # ys) sep"

definition boolValueString :: "Value \<Rightarrow> gval \<Rightarrow> (string \<times> gval) option" where
  "boolValueString val s = do {
     (x, s) \<leftarrow> get val s;
     e \<leftarrow> elemIfPtr x s;
     v \<leftarrow> Bool_v e s;
     if \<not> v then Some ([], s) else Some (FormatBool v, s)
   }"

definition intValueString :: "Value \<Rightarrow> gval \<Rightarrow> (string \<times> gval) option" where
  "intValueString val s = do {
     (x, s) \<leftarrow> get val s;
     e \<leftarrow> elemIfPtr x s;
     v \<leftarrow> Int_v e s;
     if v = 0 then Some ([], s) else Some (FormatInt v 10, s)
   }"

definition uintValueString :: "Value \<Rightarrow> gval \<Rightarrow> (string \<times> gval) option" where
  "uintValueString val s = do {
     (x, s) \<leftarrow> get val s;
     e \<leftarrow> elemIfPtr x s;
     v \<leftarrow> Uint_v e s;
     if v = 0 then Some ([], s) else Some (FormatUint v 10, s)
   }"

definition float32ValueString :: "extern \<Rightarrow> Value \<Rightarrow> gval \<Rightarrow> (string \<times> gval) option" where
  "float32ValueString E val s = do {
     (x, s) \<leftarrow> get val s;
     e \<leftarrow> elemIfPtr x s;
     v \<leftarrow> Float_v e s;
     if floatIsZero v then Some ([], s) else Some (strconv_FormatFloat E v 32, s)
   }"

definition float64ValueString :: "extern \<Rightarrow> Value \<Rightarrow> gval \<Rightarrow> (string \<times> gval) option" where
  "float64ValueString E val s = do {
     (x, s) \<leftarrow> get val s;
     e \<leftarrow> elemIfPtr x s;
     v \<leftarrow> Float_v e s;
     if floatIsZero v then Some ([], s) else Some (strconv_FormatFloat E v 64, s)
   }"

definition complex64ValueString :: "extern \<Rightarrow> Value \<Rightarrow> gval \<Rightarrow> (string \<times> gval) option" where
  "complex64ValueString E val s = do {
     (x, s) \<leftarrow> get val s;
     e \<leftarrow> elemIfPtr x s;
     v \<leftarrow> Complex_v e s;
     if floatIsZero (fst v) \<and> floatIsZero (snd v) then Some ([], s)
     else Some (strconv_FormatComplex E v 64, s)
   }"

definition complex128ValueString :: "extern \<Rightarrow> Value \<Rightarrow> gval \<Rightarrow> (string \<times> gval) option" where
  "complex128ValueString E val s = do {
     (x, s) \<leftarrow> get val s;
     e \<leftarrow> elemIfPtr x s;
     v \<leftarrow> Complex_v e s;
     if floatIsZero (fst v) \<and> floatIsZero (snd v) then Some ([], s)
     else Some (strconv_FormatComplex E v 128, s)
   }"

definition stringValueString :: "Value \<Rightarrow> gval \<Rightarrow> (string \<times> gval) option" where
  "stringValueString val s = do {
     (x, s) \<leftarrow> get val s;
     e \<leftarrow> elemIfPtr x s;
     v \<leftarrow> String_v e s;
     Some (v, s)
   }"

definition bytesValueString :: "extern \<Rightarrow> Value \<Rightarrow> gval \<Rightarrow> (string \<times> gval) option" where
  "bytesValueString E val s = do {
     (x, s) \<leftarrow> get val s;
     e \<leftarrow> elemIfPtr x s;
     v \<leftarrow> Bytes_v e s;
     if length v = 0 then Some ([], s) else Some (base64_EncodeToString E v, s)
   }"

definition mapValueString :: "extern \<Rightarrow> Value \<Rightarrow> gval \<Rightarrow> (string \<times> gval) option" where
  "mapValueString E val s = do {
     (x, s) \<leftarrow> get val s;
     v \<leftarrow> elemIfPtr x s;
     n \<leftarrow> Len v s;
     if n = 0 then Some ([], s)
     else do {
       i \<leftarrow> Interface v s;
       let (b, err) = json_Marshal E (Type_v v) i;
       if err \<noteq> None then Some ([], s) else Some (b, s)
     }
   }"

definition structValueString :: "extern \<Rightarrow> Value \<Rightarrow> gval \<Rightarrow> (string \<times> gval) option" where
  "structValueString E val s = do {
     (x, s) \<leftarrow> get val s;
     i \<leftarrow> Interface x s;
     let (b, err) = json_Marshal E (Type_v x) i;
     if err \<noteq> None then Some ([], s)
     else
       let str = b
       in if str = ''{}'' \<or> str = ''[]'' \<or> str = [CHR 0x22, CHR 0x22] \<or> str = ''0''
             \<or> str = ''false''
          then Some ([], s)
          else Some (str, s)
   }"

definition sliceValueString :: "extern \<Rightarrow> Value \<Rightarrow> gval \<Rightarrow> (string \<times> gval) option" where
  "sliceValueString E val s = do {
     (x, s) \<leftarrow> get val s;
     v \<leftarrow> elemIfPtr x s;
     n \<leftarrow> Len v s;
     if n = 0 then Some ([], s)
     else do {
       i \<leftarrow> Interface v s;
       let (b, err) = json_Marshal E (Type_v v) i;
       if err \<noteq> None then Some ([], s) else Some (b, s)
     }
   }"

definition complex64SliceValueString :: "extern \<Rightarrow> Value \<Rightarrow> gval \<Rightarrow> (string \<times> gval) option" where
  "complex64SliceValueString E val s = do {
     (x, s) \<leftarrow> get val s;
     v \<leftarrow> elemIfPtr x s;
     n \<leftarrow> Len v s;
     if n = 0 then Some ([], s)
     else do {
       xs \<leftarrow> Seq2 v s;
       li \<leftarrow> those (map (\<lambda>x. do {
               e \<leftarrow> elemIfPtr x s;
               c \<leftarrow> Complex_v e s;
               Some ([CHR 0x22] @ strconv_FormatComplex E c 64 @ [CHR 0x22]) }) xs);
       Some (''['' @ Join li '','' @ '']'', s)
     }
   }"

definition complex128SliceValueString :: "extern \<Rightarrow> Value \<Rightarrow> gval \<Rightarrow> (string \<times> gval) option" where
  "complex128SliceValueString E val s = do {
     (x, s) \<leftarrow> get val s;
     v \<leftarrow> elemIfPtr x s;
     n \<leftarrow> Len v s;
     if n = 0 then Some ([], s)
     else do {
       xs \<leftarrow> Seq2 v s;
       li \<leftarrow> those (map (\<lambda>x. do {
               e \<leftarrow> elemIfPtr x s;
               c \<leftarrow> Complex_v e s;
               Some ([CHR 0x22] @ strconv_FormatComplex E c 128 @ [CHR 0x22]) }) xs);
       Some (''['' @ Join li '','' @ '']'', s)
     }
   }"

fun call_stringFn :: "extern \<Rightarrow> stringFn \<Rightarrow> Value \<Rightarrow> gval \<Rightarrow> (string \<times> gval) option" where
  "call_stringFn E fn_boolValueString = boolValueString"
| "call_stringFn E fn_intValueString = intValueString"
| "call_stringFn E fn_uintValueString = uintValueString"
| "call_stringFn E fn_float32ValueString = float32ValueString E"
| "call_stringFn E fn_float64ValueString = float64ValueString E"
| "call_stringFn E fn_complex64ValueString = complex64ValueString E"
| "call_stringFn E fn_complex128ValueString = complex128ValueString E"
| "call_stringFn E fn_stringValueString = stringValueString"
| "call_stringFn E fn_bytesValueString = bytesValueString E"
| "call_stringFn E fn_mapValueString = mapValueString E"
| "call_stringFn E fn_structValueString = structValueString E"
| "call_stringFn E fn_sliceValueString = sliceValueString E"
| "call_stringFn E fn_complex64SliceValueString = complex64SliceValueString E"
| "call_stringFn E fn_complex128SliceValueString = complex128SliceValueString E"

section \<open>The codecs: parsing and installing\<close>

text \<open>
  The \<^verbatim>\<open>...ValueSet\<close> functions of the scalar kinds share one body, and so do those of
  the lists of scalars; the source repeats it for every kind with another parser. The body
  is written once here, with the result of the parser and \<^verbatim>\<open>reflect.ValueOf\<close> at the
  parser's result type as arguments:
  \<^verbatim>\<open>v, err := parseX(to); if err != nil { return err };
  reflectValueSet(val.get(), reflect.ValueOf(v)); return nil\<close> and
  \<^verbatim>\<open>v, err := parseX(to); if err != nil { return err }; x := val.get();
  reflectValueSet(x, reflectValueAppend(elemIfPtr(x), reflect.ValueOf(v))); return nil\<close>.
  A function returns its \<^verbatim>\<open>error\<close> (\<open>None\<close> is nil) and the store.
\<close>

definition parsedValueSet ::
  "'a \<times> error option \<Rightarrow> ('a \<Rightarrow> rvalue) \<Rightarrow> Value \<Rightarrow> gval \<Rightarrow> (error option \<times> gval) option" where
  "parsedValueSet parsed valueOf val s =
     (let (v, err) = parsed
      in if err \<noteq> None then Some (err, s)
         else do {
           (x, s) \<leftarrow> get val s;
           s \<leftarrow> reflectValueSet x (valueOf v) s;
           Some (None, s)
         })"

definition parsedSliceValueSet ::
  "'a \<times> error option \<Rightarrow> ('a \<Rightarrow> rvalue) \<Rightarrow> Value \<Rightarrow> gval \<Rightarrow> (error option \<times> gval) option" where
  "parsedSliceValueSet parsed valueOf val s =
     (let (v, err) = parsed
      in if err \<noteq> None then Some (err, s)
         else do {
           (x, s) \<leftarrow> get val s;
           e \<leftarrow> elemIfPtr x s;
           a \<leftarrow> reflectValueAppend e (valueOf v) s;
           s \<leftarrow> reflectValueSet x a s;
           Some (None, s)
         })"

text \<open>\<^verbatim>\<open>json.Unmarshal([]byte(to), v.Interface())\<close> for a pointer \<open>v\<close> outside the store:
  the error and the pointer to what the decoder left.\<close>

definition Unmarshal :: "extern \<Rightarrow> string \<Rightarrow> rvalue \<Rightarrow> error option \<times> rvalue" where
  "Unmarshal E data v =
     (case v of
        Temp (PointerT t) (VPtr (Some x)) \<Rightarrow>
          (let (err, x') = json_Unmarshal E data t x in (err, Temp (PointerT t) (VPtr (Some x'))))
      | _ \<Rightarrow> (Some (ExternError ''json: Unmarshal(non-pointer)''), v))"

definition boolValueSet :: "Value \<Rightarrow> string \<Rightarrow> gval \<Rightarrow> (error option \<times> gval) option" where
  "boolValueSet val to' =
     parsedValueSet (ParseBool to') (\<lambda>v. ValueOf (BoolT) (VBool v)) val"

definition intValueSet :: "Value \<Rightarrow> string \<Rightarrow> gval \<Rightarrow> (error option \<times> gval) option" where
  "intValueSet val to' =
     parsedValueSet (parseInt to') (\<lambda>v. ValueOf (IntT) (VInt v)) val"

definition int8ValueSet :: "Value \<Rightarrow> string \<Rightarrow> gval \<Rightarrow> (error option \<times> gval) option" where
  "int8ValueSet val to' =
     parsedValueSet (parseInt8 to') (\<lambda>v. ValueOf (Int8T) (VInt v)) val"

definition int16ValueSet :: "Value \<Rightarrow> string \<Rightarrow> gval \<Rightarrow> (error option \<times> gval) option" where
  "int16ValueSet val to' =
     parsedValueSet (parseInt16 to') (\<lambda>v. ValueOf (Int16T) (VInt v)) val"

definition int32ValueSet :: "Value \<Rightarrow> string \<Rightarrow> gval \<Rightarrow> (error option \<times> gval) option" where
  "int32ValueSet val to' =
     parsedValueSet (parseInt32 to') (\<lambda>v. ValueOf (Int32T) (VInt v)) val"

definition int64ValueSet :: "Value \<Rightarrow> string \<Rightarrow> gval \<Rightarrow> (error option \<times> gval) option" where
  "int64ValueSet val to' =
     parsedValueSet (parseInt64 to') (\<lambda>v. ValueOf (Int64T) (VInt v)) val"

definition uintValueSet :: "Value \<Rightarrow> string \<Rightarrow> gval \<Rightarrow> (error option \<times> gval) option" where
  "uintValueSet val to' =
     parsedValueSet (parseUint to') (\<lambda>v. ValueOf (UintT) (VUint v)) val"

definition uint8ValueSet :: "Value \<Rightarrow> string \<Rightarrow> gval \<Rightarrow> (error option \<times> gval) option" where
  "uint8ValueSet val to' =
     parsedValueSet (parseUint8 to') (\<lambda>v. ValueOf (Uint8T) (VUint v)) val"

definition uint16ValueSet :: "Value \<Rightarrow> string \<Rightarrow> gval \<Rightarrow> (error option \<times> gval) option" where
  "uint16ValueSet val to' =
     parsedValueSet (parseUint16 to') (\<lambda>v. ValueOf (Uint16T) (VUint v)) val"

definition uint32ValueSet :: "Value \<Rightarrow> string \<Rightarrow> gval \<Rightarrow> (error option \<times> gval) option" where
  "uint32ValueSet val to' =
     parsedValueSet (parseUint32 to') (\<lambda>v. ValueOf (Uint32T) (VUint v)) val"

definition uint64ValueSet :: "Value \<Rightarrow> string \<Rightarrow> gval \<Rightarrow> (error option \<times> gval) option" where
  "uint64ValueSet val to' =
     parsedValueSet (parseUint64 to') (\<lambda>v. ValueOf (Uint64T) (VUint v)) val"

definition float32ValueSet :: "extern \<Rightarrow> Value \<Rightarrow> string \<Rightarrow> gval \<Rightarrow> (error option \<times> gval) option" where
  "float32ValueSet E val to' =
     parsedValueSet (parseFloat32 E to') (\<lambda>v. ValueOf (Float32T) (VFloat v)) val"

definition float64ValueSet :: "extern \<Rightarrow> Value \<Rightarrow> string \<Rightarrow> gval \<Rightarrow> (error option \<times> gval) option" where
  "float64ValueSet E val to' =
     parsedValueSet (parseFloat64 E to') (\<lambda>v. ValueOf (Float64T) (VFloat v)) val"

definition complex64ValueSet :: "extern \<Rightarrow> Value \<Rightarrow> string \<Rightarrow> gval \<Rightarrow> (error option \<times> gval) option" where
  "complex64ValueSet E val to' =
     parsedValueSet (parseComplex64 E to') (\<lambda>v. ValueOf (Complex64T) (VComplex (fst v) (snd v))) val"

definition complex128ValueSet :: "extern \<Rightarrow> Value \<Rightarrow> string \<Rightarrow> gval \<Rightarrow> (error option \<times> gval) option" where
  "complex128ValueSet E val to' =
     parsedValueSet (parseComplex128 E to') (\<lambda>v. ValueOf (Complex128T) (VComplex (fst v) (snd v))) val"

definition stringValueSet :: "Value \<Rightarrow> string \<Rightarrow> gval \<Rightarrow> (error option \<times> gval) option" where
  "stringValueSet val to' =
     parsedValueSet ((to', None)) (\<lambda>v. ValueOf (StringT) (VString v)) val"

definition bytesValueSet :: "extern \<Rightarrow> Value \<Rightarrow> string \<Rightarrow> gval \<Rightarrow> (error option \<times> gval) option" where
  "bytesValueSet E val to' =
     parsedValueSet (base64_DecodeString E to') (\<lambda>v. ValueOf (SliceT Uint8T) (VSlice (Some (map VUint v)))) val"

text \<open>\<^verbatim>\<open>stringValueSet\<close> and \<^verbatim>\<open>stringSliceValueSet\<close> have no parser: the text itself
  is the value, and the error is always nil.\<close>

definition mapValueSet :: "extern \<Rightarrow> Value \<Rightarrow> string \<Rightarrow> gval \<Rightarrow> (error option \<times> gval) option" where
  "mapValueSet E val to' s = do {
     t0 \<leftarrow> typ_v val;
     let t = elemIfPtrType t0;
     v \<leftarrow> Addr (addressable (MakeMap t));
     let (err, v) = Unmarshal E to' v;
     if err \<noteq> None then Some (err, s)
     else do {
       (x, s) \<leftarrow> get val s;
       s \<leftarrow> reflectValueSet x v s;
       Some (None, s)
     }
   }"

definition structValueSet :: "extern \<Rightarrow> Value \<Rightarrow> string \<Rightarrow> gval \<Rightarrow> (error option \<times> gval) option" where
  "structValueSet E val to' s = do {
     t0 \<leftarrow> typ_v val;
     let t = elemIfPtrType t0;
     let v = New_v t;
     let (err, v) = Unmarshal E to' v;
     if err \<noteq> None then Some (err, s)
     else do {
       (x, s) \<leftarrow> get val s;
       s \<leftarrow> reflectValueSet x v s;
       Some (None, s)
     }
   }"

definition boolSliceValueSet :: "Value \<Rightarrow> string \<Rightarrow> gval \<Rightarrow> (error option \<times> gval) option" where
  "boolSliceValueSet val to' =
     parsedSliceValueSet (ParseBool to') (\<lambda>v. ValueOf (BoolT) (VBool v)) val"

definition intSliceValueSet :: "Value \<Rightarrow> string \<Rightarrow> gval \<Rightarrow> (error option \<times> gval) option" where
  "intSliceValueSet val to' =
     parsedSliceValueSet (parseInt to') (\<lambda>v. ValueOf (IntT) (VInt v)) val"

definition int8SliceValueSet :: "Value \<Rightarrow> string \<Rightarrow> gval \<Rightarrow> (error option \<times> gval) option" where
  "int8SliceValueSet val to' =
     parsedSliceValueSet (parseInt8 to') (\<lambda>v. ValueOf (Int8T) (VInt v)) val"

definition int16SliceValueSet :: "Value \<Rightarrow> string \<Rightarrow> gval \<Rightarrow> (error option \<times> gval) option" where
  "int16SliceValueSet val to' =
     parsedSliceValueSet (parseInt16 to') (\<lambda>v. ValueOf (Int16T) (VInt v)) val"

definition int32SliceValueSet :: "Value \<Rightarrow> string \<Rightarrow> gval \<Rightarrow> (error option \<times> gval) option" where
  "int32SliceValueSet val to' =
     parsedSliceValueSet (parseInt32 to') (\<lambda>v. ValueOf (Int32T) (VInt v)) val"

definition int64SliceValueSet :: "Value \<Rightarrow> string \<Rightarrow> gval \<Rightarrow> (error option \<times> gval) option" where
  "int64SliceValueSet val to' =
     parsedSliceValueSet (parseInt64 to') (\<lambda>v. ValueOf (Int64T) (VInt v)) val"

definition uintSliceValueSet :: "Value \<Rightarrow> string \<Rightarrow> gval \<Rightarrow> (error option \<times> gval) option" where
  "uintSliceValueSet val to' =
     parsedSliceValueSet (parseUint to') (\<lambda>v. ValueOf (UintT) (VUint v)) val"

definition uint8SliceValueSet :: "Value \<Rightarrow> string \<Rightarrow> gval \<Rightarrow> (error option \<times> gval) option" where
  "uint8SliceValueSet val to' =
     parsedSliceValueSet (parseUint8 to') (\<lambda>v. ValueOf (Uint8T) (VUint v)) val"

definition uint16SliceValueSet :: "Value \<Rightarrow> string \<Rightarrow> gval \<Rightarrow> (error option \<times> gval) option" where
  "uint16SliceValueSet val to' =
     parsedSliceValueSet (parseUint16 to') (\<lambda>v. ValueOf (Uint16T) (VUint v)) val"

definition uint32SliceValueSet :: "Value \<Rightarrow> string \<Rightarrow> gval \<Rightarrow> (error option \<times> gval) option" where
  "uint32SliceValueSet val to' =
     parsedSliceValueSet (parseUint32 to') (\<lambda>v. ValueOf (Uint32T) (VUint v)) val"

definition uint64SliceValueSet :: "Value \<Rightarrow> string \<Rightarrow> gval \<Rightarrow> (error option \<times> gval) option" where
  "uint64SliceValueSet val to' =
     parsedSliceValueSet (parseUint64 to') (\<lambda>v. ValueOf (Uint64T) (VUint v)) val"

definition float32SliceValueSet :: "extern \<Rightarrow> Value \<Rightarrow> string \<Rightarrow> gval \<Rightarrow> (error option \<times> gval) option" where
  "float32SliceValueSet E val to' =
     parsedSliceValueSet (parseFloat32 E to') (\<lambda>v. ValueOf (Float32T) (VFloat v)) val"

definition float64SliceValueSet :: "extern \<Rightarrow> Value \<Rightarrow> string \<Rightarrow> gval \<Rightarrow> (error option \<times> gval) option" where
  "float64SliceValueSet E val to' =
     parsedSliceValueSet (parseFloat64 E to') (\<lambda>v. ValueOf (Float64T) (VFloat v)) val"

definition complex64SliceValueSet :: "extern \<Rightarrow> Value \<Rightarrow> string \<Rightarrow> gval \<Rightarrow> (error option \<times> gval) option" where
  "complex64SliceValueSet E val to' =
     parsedSliceValueSet (parseComplex64 E to') (\<lambda>v. ValueOf (Complex64T) (VComplex (fst v) (snd v))) val"

definition complex128SliceValueSet :: "extern \<Rightarrow> Value \<Rightarrow> string \<Rightarrow> gval \<Rightarrow> (error option \<times> gval) option" where
  "complex128SliceValueSet E val to' =
     parsedSliceValueSet (parseComplex128 E to') (\<lambda>v. ValueOf (Complex128T) (VComplex (fst v) (snd v))) val"

definition stringSliceValueSet :: "Value \<Rightarrow> string \<Rightarrow> gval \<Rightarrow> (error option \<times> gval) option" where
  "stringSliceValueSet val to' =
     parsedSliceValueSet ((to', None)) (\<lambda>v. ValueOf (StringT) (VString v)) val"

definition bytesSliceValueSet :: "extern \<Rightarrow> Value \<Rightarrow> string \<Rightarrow> gval \<Rightarrow> (error option \<times> gval) option" where
  "bytesSliceValueSet E val to' =
     parsedSliceValueSet (base64_DecodeString E to') (\<lambda>v. ValueOf (SliceT Uint8T) (VSlice (Some (map VUint v)))) val"

definition sliceSliceValueSet :: "extern \<Rightarrow> Value \<Rightarrow> string \<Rightarrow> gval \<Rightarrow> (error option \<times> gval) option" where
  "sliceSliceValueSet E val to' s = do {
     t0 \<leftarrow> typ_v val;
     let sliceType = elemIfPtrType t0;
     let t = elemIfPtrType (Elem_t sliceType);
     v \<leftarrow> Addr (addressable (MakeSlice t));
     let (err, v) = Unmarshal E to' v;
     if err \<noteq> None then Some (err, s)
     else do {
       (x, s) \<leftarrow> get val s;
       e \<leftarrow> elemIfPtr x s;
       a \<leftarrow> reflectValueAppend e v s;
       s \<leftarrow> reflectValueSet x a s;
       Some (None, s)
     }
   }"

definition mapSliceValueSet :: "extern \<Rightarrow> Value \<Rightarrow> string \<Rightarrow> gval \<Rightarrow> (error option \<times> gval) option" where
  "mapSliceValueSet E val to' s = do {
     t0 \<leftarrow> typ_v val;
     let sliceType = elemIfPtrType t0;
     let t = elemIfPtrType (Elem_t sliceType);
     v \<leftarrow> Addr (addressable (MakeMap t));
     let (err, v) = Unmarshal E to' v;
     if err \<noteq> None then Some (err, s)
     else do {
       (x, s) \<leftarrow> get val s;
       e \<leftarrow> elemIfPtr x s;
       a \<leftarrow> reflectValueAppend e v s;
       s \<leftarrow> reflectValueSet x a s;
       Some (None, s)
     }
   }"

definition structSliceValueSet :: "extern \<Rightarrow> Value \<Rightarrow> string \<Rightarrow> gval \<Rightarrow> (error option \<times> gval) option" where
  "structSliceValueSet E val to' s = do {
     t0 \<leftarrow> typ_v val;
     let sliceType = elemIfPtrType t0;
     let t = elemIfPtrType (Elem_t sliceType);
     v \<leftarrow> Some (New_v t);
     let (err, v) = Unmarshal E to' v;
     if err \<noteq> None then Some (err, s)
     else do {
       (x, s) \<leftarrow> get val s;
       e \<leftarrow> elemIfPtr x s;
       a \<leftarrow> reflectValueAppend e v s;
       s \<leftarrow> reflectValueSet x a s;
       Some (None, s)
     }
   }"

fun call_setFn :: "extern \<Rightarrow> setFn \<Rightarrow> Value \<Rightarrow> string \<Rightarrow> gval \<Rightarrow> (error option \<times> gval) option" where
  "call_setFn E fn_boolValueSet = boolValueSet"
| "call_setFn E fn_intValueSet = intValueSet"
| "call_setFn E fn_int8ValueSet = int8ValueSet"
| "call_setFn E fn_int16ValueSet = int16ValueSet"
| "call_setFn E fn_int32ValueSet = int32ValueSet"
| "call_setFn E fn_int64ValueSet = int64ValueSet"
| "call_setFn E fn_uintValueSet = uintValueSet"
| "call_setFn E fn_uint8ValueSet = uint8ValueSet"
| "call_setFn E fn_uint16ValueSet = uint16ValueSet"
| "call_setFn E fn_uint32ValueSet = uint32ValueSet"
| "call_setFn E fn_uint64ValueSet = uint64ValueSet"
| "call_setFn E fn_float32ValueSet = float32ValueSet E"
| "call_setFn E fn_float64ValueSet = float64ValueSet E"
| "call_setFn E fn_complex64ValueSet = complex64ValueSet E"
| "call_setFn E fn_complex128ValueSet = complex128ValueSet E"
| "call_setFn E fn_stringValueSet = stringValueSet"
| "call_setFn E fn_bytesValueSet = bytesValueSet E"
| "call_setFn E fn_mapValueSet = mapValueSet E"
| "call_setFn E fn_structValueSet = structValueSet E"
| "call_setFn E fn_boolSliceValueSet = boolSliceValueSet"
| "call_setFn E fn_intSliceValueSet = intSliceValueSet"
| "call_setFn E fn_int8SliceValueSet = int8SliceValueSet"
| "call_setFn E fn_int16SliceValueSet = int16SliceValueSet"
| "call_setFn E fn_int32SliceValueSet = int32SliceValueSet"
| "call_setFn E fn_int64SliceValueSet = int64SliceValueSet"
| "call_setFn E fn_uintSliceValueSet = uintSliceValueSet"
| "call_setFn E fn_uint8SliceValueSet = uint8SliceValueSet"
| "call_setFn E fn_uint16SliceValueSet = uint16SliceValueSet"
| "call_setFn E fn_uint32SliceValueSet = uint32SliceValueSet"
| "call_setFn E fn_uint64SliceValueSet = uint64SliceValueSet"
| "call_setFn E fn_float32SliceValueSet = float32SliceValueSet E"
| "call_setFn E fn_float64SliceValueSet = float64SliceValueSet E"
| "call_setFn E fn_complex64SliceValueSet = complex64SliceValueSet E"
| "call_setFn E fn_complex128SliceValueSet = complex128SliceValueSet E"
| "call_setFn E fn_stringSliceValueSet = stringSliceValueSet"
| "call_setFn E fn_bytesSliceValueSet = bytesSliceValueSet E"
| "call_setFn E fn_sliceSliceValueSet = sliceSliceValueSet E"
| "call_setFn E fn_mapSliceValueSet = mapSliceValueSet E"
| "call_setFn E fn_structSliceValueSet = structSliceValueSet E"

section \<open>The methods of a flag value that touch the store\<close>

text \<open>\<^verbatim>\<open>Get\<close> returns the interface value (\<open>None\<close> is the nil interface), \<^verbatim>\<open>String\<close>
  the text, \<^verbatim>\<open>Set\<close> the error; each also returns the store. The outer \<open>option\<close> is
  \<open>None\<close> when the call panics. In \<^verbatim>\<open>Set\<close> with a custom decoder the decoder writes
  through the address of the (pointer-unwrapped) position.\<close>

definition Get :: "Value option \<Rightarrow> gval \<Rightarrow> (gval option \<times> gval) option" where
  "Get val s =
     (if \<not> isInitialized val then Some (None, s)
      else do {
        (x, s) \<leftarrow> get (the val) s;
        i \<leftarrow> Interface x s;
        Some (Some i, s)
      })"

definition String :: "extern \<Rightarrow> Value option \<Rightarrow> gval \<Rightarrow> (string \<times> gval) option" where
  "String E val s =
     (if \<not> isInitialized val then Some ([], s)
      else if encodeFn (the val) \<noteq> None
      then do {
        (x, s) \<leftarrow> get (the val) s;
        i \<leftarrow> Interface x s;
        let (b, err) = the (encodeFn (the val)) (Type_v x) i;
        if err \<noteq> None then Some ([], s) else Some (b, s)
      }
      else call_stringFn E (stringFn (the val)) (the val) s)"

definition Set :: "extern \<Rightarrow> Value option \<Rightarrow> string \<Rightarrow> gval \<Rightarrow> (error option \<times> gval) option" where
  "Set E val to' s =
     (if \<not> isInitialized val then Some (None, s)
      else if decodeFn (the val) \<noteq> None
      then do {
        (x, s) \<leftarrow> get (the val) s;
        e \<leftarrow> elemIfPtr x s;
        case e of
          InStore t p c \<Rightarrow> do {
            cur \<leftarrow> store_get p s;
            let (err, new) = the (decodeFn (the val)) to' t cur;
            s \<leftarrow> store_set p new s;
            Some (err, s)
          }
        | Temp t v \<Rightarrow> None
      }
      else call_setFn E (setFn (the val)) (the val) to' s)"

definition SetEncoder ::
  "Value option \<Rightarrow> (rtype \<Rightarrow> gval \<Rightarrow> string \<times> error option) option \<Rightarrow> Value option" where
  "SetEncoder val fn =
     (if \<not> isInitialized val then val else Some ((the val)\<lparr>encodeFn := fn\<rparr>))"

definition SetDecoder ::
  "Value option \<Rightarrow> (string \<Rightarrow> rtype \<Rightarrow> gval \<Rightarrow> error option \<times> gval) option \<Rightarrow> Value option" where
  "SetDecoder val fn =
     (if \<not> isInitialized val then val else Some ((the val)\<lparr>decodeFn := fn\<rparr>))"

section \<open>Well-typed stores and the positions of nodes\<close>

text \<open>A value is well typed when it has the shape of its type and every integer lies in the
  range of its width (\<^verbatim>\<open>int\<close> and \<^verbatim>\<open>uint\<close> have 64 bits).\<close>

fun wt :: "rtype \<Rightarrow> gval \<Rightarrow> bool" where
  "wt BoolT v = (case v of VBool b \<Rightarrow> True | _ \<Rightarrow> False)"
| "wt IntT v = (case v of VInt i \<Rightarrow> - (2 ^ 63) \<le> i \<and> i < 2 ^ 63 | _ \<Rightarrow> False)"
| "wt Int8T v = (case v of VInt i \<Rightarrow> - (2 ^ 7) \<le> i \<and> i < 2 ^ 7 | _ \<Rightarrow> False)"
| "wt Int16T v = (case v of VInt i \<Rightarrow> - (2 ^ 15) \<le> i \<and> i < 2 ^ 15 | _ \<Rightarrow> False)"
| "wt Int32T v = (case v of VInt i \<Rightarrow> - (2 ^ 31) \<le> i \<and> i < 2 ^ 31 | _ \<Rightarrow> False)"
| "wt Int64T v = (case v of VInt i \<Rightarrow> - (2 ^ 63) \<le> i \<and> i < 2 ^ 63 | _ \<Rightarrow> False)"
| "wt UintT v = (case v of VUint n \<Rightarrow> n < 2 ^ 64 | _ \<Rightarrow> False)"
| "wt Uint8T v = (case v of VUint n \<Rightarrow> n < 2 ^ 8 | _ \<Rightarrow> False)"
| "wt Uint16T v = (case v of VUint n \<Rightarrow> n < 2 ^ 16 | _ \<Rightarrow> False)"
| "wt Uint32T v = (case v of VUint n \<Rightarrow> n < 2 ^ 32 | _ \<Rightarrow> False)"
| "wt Uint64T v = (case v of VUint n \<Rightarrow> n < 2 ^ 64 | _ \<Rightarrow> False)"
| "wt UintptrT v = (case v of VUint n \<Rightarrow> n < 2 ^ 64 | _ \<Rightarrow> False)"
| "wt Float32T v = (case v of VFloat f \<Rightarrow> True | _ \<Rightarrow> False)"
| "wt Float64T v = (case v of VFloat f \<Rightarrow> True | _ \<Rightarrow> False)"
| "wt Complex64T v = (case v of VComplex re im \<Rightarrow> True | _ \<Rightarrow> False)"
| "wt Complex128T v = (case v of VComplex re im \<Rightarrow> True | _ \<Rightarrow> False)"
| "wt StringT v = (case v of VString x \<Rightarrow> True | _ \<Rightarrow> False)"
| "wt UnsafePointerT v = (v = VNil)"
| "wt InterfaceT v = (v = VNil)"
| "wt FuncT v = (v = VNil)"
| "wt (ArrayT n t) v = (case v of VArray xs \<Rightarrow> length xs = n \<and> list_all (wt t) xs | _ \<Rightarrow> False)"
| "wt (ChanT t) v = (v = VNil)"
| "wt (MapT k t) v =
     (case v of
        VMap None \<Rightarrow> True
      | VMap (Some kvs) \<Rightarrow> list_all (\<lambda>kv. wt k (fst kv) \<and> wt t (snd kv)) kvs
      | _ \<Rightarrow> False)"
| "wt (PointerT t) v = (case v of VPtr None \<Rightarrow> True | VPtr (Some x) \<Rightarrow> wt t x | _ \<Rightarrow> False)"
| "wt (SliceT t) v =
     (case v of VSlice None \<Rightarrow> True | VSlice (Some xs) \<Rightarrow> list_all (wt t) xs | _ \<Rightarrow> False)"
| "wt (StructT fs) v =
     (case v of VStruct vs \<Rightarrow> list_all2 (\<lambda>f x. wt (Type f) x) fs vs | _ \<Rightarrow> False)"

text \<open>A root that \<^verbatim>\<open>New\<close> and \<^verbatim>\<open>Recursive\<close> accept: a non-nil pointer, well typed.\<close>

definition root_ok :: "rtype \<Rightarrow> gval \<Rightarrow> bool" where
  "root_ok T r = (KindOf T = PointerKind \<and> \<not> is_nil r \<and> wt T r)"

text \<open>A node of a root type: its path is a path of exported declared fields and it is what
  \<^verbatim>\<open>newValue\<close> builds there. These are the nodes \<^verbatim>\<open>New\<close> and \<^verbatim>\<open>Recursive\<close> return
  (lemmas \<open>New_node_of\<close>, \<open>Recursive_node_of\<close>).\<close>

definition node_of :: "rtype \<Rightarrow> Value \<Rightarrow> bool" where
  "node_of T v =
     (path_ok T (fieldsIndexes v) (fields_v v) \<and>
      newValue (ValueOf_root T) (fieldsIndexes v) (fields_v v) = Some v)"

text \<open>The type of the position of a node and the kind its codec was chosen for.\<close>

definition typeOfNode :: "Value \<Rightarrow> rtype" where
  "typeOfNode v = (case base v of Some b \<Rightarrow> posType b (fields_v v) | None \<Rightarrow> InterfaceT)"

definition kindOfNode :: "Value \<Rightarrow> Kind" where
  "kindOfNode v = KindOf (elemIfPtrType (typeOfNode v))"

text \<open>What the codecs of a node read: the (pointer-unwrapped) value at its position, after
  \<^verbatim>\<open>val.get()\<close>; \<open>None\<close> if that panics.\<close>

definition target :: "Value \<Rightarrow> gval \<Rightarrow> gval option" where
  "target v s = do { (x, s') \<leftarrow> get v s; e \<leftarrow> elemIfPtr x s'; Interface e s' }"

text \<open>The position of a node as steps into the store, the type found there, and the value at
  it without any allocation: \<open>None\<close> when a pointer on the way is nil.\<close>

fun loc :: "rtype \<Rightarrow> nat list \<Rightarrow> step list" where
  "loc t [] = []"
| "loc t (i # ix) =
     (if KindOf t = PointerKind then [Deref] else []) @
     FieldAt i # loc (Type (Field_t (elemIfPtrType t) i)) ix"

fun typeAt :: "rtype \<Rightarrow> nat list \<Rightarrow> rtype" where
  "typeAt t [] = t"
| "typeAt t (i # ix) = typeAt (Type (Field_t (elemIfPtrType t) i)) ix"

definition peek :: "rtype \<Rightarrow> nat list \<Rightarrow> gval \<Rightarrow> gval option" where
  "peek T ix s = store_get (loc T ix) s"

text \<open>The store after the allocations of \<^verbatim>\<open>fieldByIndex\<close> along a path: every nil pointer
  on the way, and the pointer at the end, points to a fresh zero value.\<close>

fun alloc :: "rtype \<Rightarrow> nat list \<Rightarrow> gval \<Rightarrow> gval" where
  "alloc t [] v = (if KindOf t = PointerKind \<and> is_nil v then VPtr (Some (zero (Elem_t t))) else v)"
| "alloc t (i # ix) v =
     (let t' = elemIfPtrType t;
          x = (if KindOf t = PointerKind
               then (case v of VPtr (Some x) \<Rightarrow> x | _ \<Rightarrow> zero t')
               else v);
          x' = (case x of
                  VStruct vs \<Rightarrow> VStruct (vs[i := alloc (Type (Field_t t' i)) ix (vs ! i)])
                | _ \<Rightarrow> x)
      in if KindOf t = PointerKind then VPtr (Some x') else x')"

text \<open>The shape \<^verbatim>\<open>fieldByIndex\<close> needs along a path: structs with the indexed, exported
  field, reached directly or through a pointer (a nil pointer will be allocated).\<close>

fun along :: "rtype \<Rightarrow> nat list \<Rightarrow> gval \<Rightarrow> bool" where
  "along t [] v = (KindOf t = PointerKind \<longrightarrow> (case v of VPtr x \<Rightarrow> True | _ \<Rightarrow> False))"
| "along t (i # ix) v =
     (case elemIfPtrType t of
        StructT fs \<Rightarrow>
          i < length fs \<and> IsExported (fs ! i) \<and>
          (case (if KindOf t = PointerKind
                 then (case v of VPtr None \<Rightarrow> Some (zero (StructT fs))
                       | VPtr (Some x) \<Rightarrow> Some x | _ \<Rightarrow> None)
                 else Some v) of
             Some (VStruct vs) \<Rightarrow> length vs = length fs \<and> along (Type (fs ! i)) ix (vs ! i)
           | _ \<Rightarrow> False)
      | _ \<Rightarrow> False)"

text \<open>The loop of \<^verbatim>\<open>fieldByIndex\<close> followed by the allocation at the end (an auxiliary
  name for the proofs).\<close>

definition fbi_tail :: "rvalue \<Rightarrow> nat list \<Rightarrow> gval \<Rightarrow> (rvalue \<times> gval) option" where
  "fbi_tail v ix s = do { (v', s') \<leftarrow> fieldByIndex_loop v ix s; s'' \<leftarrow> allocIfNil v' s'; Some (v', s'') }"

text \<open>A path is allocated in a store when no pointer on it, nor the pointer at its end, is
  nil; \<open>tloc\<close> is the pointer-unwrapped position the codecs of a node read and write.\<close>

fun allocated :: "rtype \<Rightarrow> nat list \<Rightarrow> gval \<Rightarrow> bool" where
  "allocated t [] v = (KindOf t = PointerKind \<longrightarrow> (case v of VPtr (Some x) \<Rightarrow> True | _ \<Rightarrow> False))"
| "allocated t (i # ix) v =
     (case elemIfPtrType t of
        StructT fs \<Rightarrow>
          i < length fs \<and> IsExported (fs ! i) \<and>
          (case (if KindOf t = PointerKind
                 then (case v of VPtr (Some x) \<Rightarrow> Some x | _ \<Rightarrow> None)
                 else Some v) of
             Some (VStruct vs) \<Rightarrow> length vs = length fs \<and> allocated (Type (fs ! i)) ix (vs ! i)
           | _ \<Rightarrow> False)
      | _ \<Rightarrow> False)"

definition tloc :: "rtype \<Rightarrow> nat list \<Rightarrow> step list" where
  "tloc T ix = loc T ix @ (if KindOf (typeAt T ix) = PointerKind then [Deref] else [])"

text \<open>A node is ready in a store when the store is allocated along its path; then
  \<^verbatim>\<open>val.get()\<close> changes nothing. (The root type is a pointer and the kind the codec was
  chosen for is never a pointer.)\<close>

definition ready :: "rtype \<Rightarrow> Value \<Rightarrow> gval \<Rightarrow> bool" where
  "ready T v s =
     (base v = Some (InStore T [] False) \<and> KindOf T = PointerKind \<and>
      allocated T (fieldsIndexes v) s \<and> typeOfNode v = typeAt T (fieldsIndexes v) \<and>
      kindOfNode v \<noteq> PointerKind)"

text \<open>The handle \<^verbatim>\<open>val.get()\<close> returns for a node, and the handle of the pointer-unwrapped
  position.\<close>

definition handle :: "rtype \<Rightarrow> Value \<Rightarrow> rvalue" where
  "handle T v = InStore (typeOfNode v) (loc T (fieldsIndexes v)) (fieldsIndexes v \<noteq> [])"

definition thandle :: "rtype \<Rightarrow> Value \<Rightarrow> rvalue" where
  "thandle T v = InStore (elemIfPtrType (typeOfNode v)) (tloc T (fieldsIndexes v)) True"

section \<open>Properties of the discovery\<close>

declare recursive.simps [simp del]

lemmas new_ctor_defs = newBoolValue_def newIntValue_def newInt8Value_def newInt16Value_def newInt32Value_def newInt64Value_def newUintValue_def newUint8Value_def newUint16Value_def newUint32Value_def newUint64Value_def newFloat32Value_def newFloat64Value_def newComplex64Value_def newComplex128Value_def newStringValue_def newBytesValue_def newMapValue_def newStructValue_def newBoolSliceValue_def newIntSliceValue_def newInt8SliceValue_def newInt16SliceValue_def newInt32SliceValue_def newInt64SliceValue_def newUintSliceValue_def newUint8SliceValue_def newUint16SliceValue_def newUint32SliceValue_def newUint64SliceValue_def newFloat32SliceValue_def newFloat64SliceValue_def newComplex64SliceValue_def newComplex128SliceValue_def newStringSliceValue_def newBytesSliceValue_def newSliceSliceValue_def newMapSliceValue_def newStructSliceValue_def

subsection \<open>Filters combine by bitwise OR\<close>

lemma or_mask_nonzero:
  fixes a b m :: "32 word"
  shows "(a OR b) AND m \<noteq> 0 \<longleftrightarrow> a AND m \<noteq> 0 \<or> b AND m \<noteq> 0"
  by (auto simp: bit.conj_disj_distrib2 or_eq_0_iff)

lemma foldl_or_acc:
  fixes a :: "32 word"
  shows "foldl (\<lambda>r cond. r OR cond val) a filters = a OR foldl (\<lambda>r cond. r OR cond val) 0 filters"
proof (induction filters arbitrary: a)
  case Nil
  show ?case by simp
next
  case (Cons f fs)
  have "foldl (\<lambda>r cond. r OR cond val) a (f # fs) = (a OR f val) OR foldl (\<lambda>r cond. r OR cond val) 0 fs"
    using Cons [of "a OR f val"] by simp
  also have "\<dots> = a OR (f val OR foldl (\<lambda>r cond. r OR cond val) 0 fs)"
    by (simp add: or.assoc)
  also have "f val OR foldl (\<lambda>r cond. r OR cond val) 0 fs = foldl (\<lambda>r cond. r OR cond val) 0 (f # fs)"
    using Cons [of "f val"] by simp
  finally show ?case .
qed

lemma Filter_Cons:
  "Filter (Some v) (f # fs) = f (Some v) OR Filter (Some v) fs"
  using foldl_or_acc [of "Some v" "f (Some v)" fs] by (simp add: Filter_def)

lemma Filter_Nil: "Filter (Some v) [] = IncludeAndDescend"
  by (simp add: Filter_def IncludeAndDescend_def)

lemma Filter_mask:
  "Filter (Some v) fs AND m \<noteq> 0 \<longleftrightarrow> (\<exists>f \<in> set fs. f (Some v) AND m \<noteq> 0)"
  by (induction fs) (auto simp: Filter_Cons Filter_Nil IncludeAndDescend_def or_mask_nonzero)

lemma Filter_mset:
  assumes "mset fs = mset gs"
  shows "Filter val fs = Filter val gs"
proof -
  have "fold (\<lambda>cond r. r OR cond val) fs = fold (\<lambda>cond r. r OR cond val) gs"
    using _ assms by (rule fold_multiset_equiv) (auto simp: fun_eq_iff or.assoc or.left_commute or.commute)
  then show ?thesis
    by (simp add: Filter_def foldl_conv_fold)
qed

lemma Filter_None_masks:
  "Filter None filters AND skipMask \<noteq> 0" "Filter None filters AND noDescendMask \<noteq> 0"
  by (simp_all add: Filter_def SkipNoDescend_def skipMask_def noDescendMask_def)

subsection \<open>The nodes a dispatch builds\<close>

lemma fresh_node_newSliceValue: "fresh_node b ix fs (newSliceValue t b ix fs)"
  unfolding newSliceValue_def Let_def
  by (simp add: fresh_node_def new_ctor_defs split: Kind.split)

lemma fresh_node_newValue: "fresh_node b ix fs (newValue b ix fs)"
  unfolding newValue_def Let_def
  apply (split Kind.split)
  apply (intro conjI impI)
  apply (simp_all only: fresh_node_newSliceValue)
  apply (simp_all only: fresh_node_def new_ctor_defs option.case Value.simps simp_thms)
  done

lemma newValue_Some:
  assumes "newValue b ix fs = Some v"
  shows "base v = Some b \<and> fieldsIndexes v = ix \<and> fields_v v = fs
    \<and> encodeFn v = None \<and> decodeFn v = None"
  using fresh_node_newValue [of b ix fs] assms by (simp add: fresh_node_def)


subsection \<open>The traversal\<close>

lemma foldl_append_if:
  "foldl (\<lambda>values i. if \<not> P i then values else values @ g i) vs xs
     = vs @ concat (map g (filter P xs))"
  by (induction xs arbitrary: vs) simp_all

lemma recursive_unfold:
  "recursive b ix fs filters =
    (let val = newValue b ix fs; r = Filter val filters; t = elemIfPtrType (posType b fs)
     in (if r AND skipMask = 0 then [val] else []) @
        (if r AND noDescendMask \<noteq> 0 \<or> KindOf t \<noteq> StructKind then []
         else concat (map (\<lambda>i. recursive b (ix @ [i]) (fs @ [Field_t t i]) filters)
                (exportedFields t))))"
  by (subst recursive.simps)
    (simp add: Let_def foldl_append_if elemIfPtrType_def exportedFields_def)

lemma recursive_induct [case_names step]:
  assumes "\<And>b ix fs filters.
     (\<And>i. Filter (newValue b ix fs) filters AND noDescendMask = 0 \<Longrightarrow>
        KindOf (elemIfPtrType (posType b fs)) = StructKind \<Longrightarrow>
        i \<in> set (exportedFields (elemIfPtrType (posType b fs))) \<Longrightarrow>
        P b (ix @ [i]) (fs @ [Field_t (elemIfPtrType (posType b fs)) i]) filters)
     \<Longrightarrow> P b ix fs filters"
  shows "P b ix fs filters"
proof (induction b ix fs filters rule: recursive.induct)
  case (1 b ix fs filters)
  show ?case
  proof (rule assms)
    fix i
    assume "Filter (newValue b ix fs) filters AND noDescendMask = 0"
      and "KindOf (elemIfPtrType (posType b fs)) = StructKind"
      and "i \<in> set (exportedFields (elemIfPtrType (posType b fs)))"
    then show "P b (ix @ [i]) (fs @ [Field_t (elemIfPtrType (posType b fs)) i]) filters"
      by (intro "1.IH") (auto simp: elemIfPtrType_def exportedFields_def)
  qed
qed

lemma path_ok_length: "path_ok t ix fs \<Longrightarrow> length ix = length fs"
  by (induction t ix fs rule: path_ok.induct) auto

lemma path_ok_Nil_left: "path_ok t [] fs \<longleftrightarrow> fs = []"
  by (cases fs) simp_all

lemma path_ok_Nil_right: "path_ok t ix [] \<longleftrightarrow> ix = []"
  by (cases ix) simp_all

lemma path_ok_snoc:
  "path_ok t (ix @ [i]) (fs @ [f]) \<longleftrightarrow>
     path_ok t ix fs \<and>
     (let p = elemIfPtrType (if length fs > 0 then Type (last fs) else t)
      in KindOf p = StructKind \<and> i < NumField p \<and> f = Field_t p i \<and> IsExported f)"
proof (induction t ix fs rule: path_ok.induct)
  case (1 t)
  show ?case by (auto simp: Let_def)
next
  case (2 t j ix g fs)
  then show ?case by (cases fs) (auto simp: Let_def)
qed (simp_all add: path_ok_Nil_left path_ok_Nil_right)

lemma in_exportedFields:
  "i \<in> set (exportedFields t) \<longleftrightarrow> i < NumField t \<and> IsExported (Field_t t i)"
  by (auto simp: exportedFields_def)

lemma recursive_set:
  "set (recursive b ix fs filters) =
     (if Filter (newValue b ix fs) filters AND skipMask = 0 then {newValue b ix fs} else {}) \<union>
     (if Filter (newValue b ix fs) filters AND noDescendMask \<noteq> 0
         \<or> KindOf (elemIfPtrType (posType b fs)) \<noteq> StructKind then {}
      else (\<Union>i \<in> set (exportedFields (elemIfPtrType (posType b fs))).
              set (recursive b (ix @ [i]) (fs @ [Field_t (elemIfPtrType (posType b fs)) i]) filters)))"
  by (subst recursive_unfold) (simp add: Let_def)

lemma recursive_nodes:
  assumes "val \<in> set (recursive b ix fs filters)" and "path_ok (Type_v b) ix fs"
  shows "\<exists>v r. val = Some v \<and> base v = Some b \<and> fieldsIndexes v = ix @ r
           \<and> path_ok (Type_v b) (fieldsIndexes v) (fields_v v)
           \<and> encodeFn v = None \<and> decodeFn v = None
           \<and> val = newValue b (fieldsIndexes v) (fields_v v)"
  using assms
proof (induction b ix fs filters arbitrary: val rule: recursive_induct)
  case (step b ix fs filters)
  let ?t = "elemIfPtrType (posType b fs)"
  from step.prems(1) consider
      (own) "Filter (newValue b ix fs) filters AND skipMask = 0" "val = newValue b ix fs"
    | (child) i where "Filter (newValue b ix fs) filters AND noDescendMask = 0"
        "KindOf ?t = StructKind" "i \<in> set (exportedFields ?t)"
        "val \<in> set (recursive b (ix @ [i]) (fs @ [Field_t ?t i]) filters)"
    by (subst (asm) recursive_set) (auto split: if_splits)
  then show ?case
  proof cases
    case own
    then obtain v where v: "newValue b ix fs = Some v"
      using Filter_None_masks(1) [of filters] by (cases "newValue b ix fs") auto
    from newValue_Some [OF v] own(2) v step.prems(2) show ?thesis
      by auto
  next
    case (child i)
    have "path_ok (Type_v b) (ix @ [i]) (fs @ [Field_t ?t i])"
      using child(2,3) step.prems(2)
      by (simp add: path_ok_snoc in_exportedFields posType_def Let_def)
    from step.IH [OF child(1,2,3) child(4) this] show ?thesis
      by auto
  qed
qed


lemma recursive_prefix:
  assumes "val \<in> set (recursive b ix fs filters)"
  shows "\<exists>v r. val = Some v \<and> fieldsIndexes v = ix @ r"
  using assms
proof (induction b ix fs filters arbitrary: val rule: recursive_induct)
  case (step b ix fs filters)
  let ?t = "elemIfPtrType (posType b fs)"
  from step.prems(1) consider
      (own) "Filter (newValue b ix fs) filters AND skipMask = 0" "val = newValue b ix fs"
    | (child) i where "Filter (newValue b ix fs) filters AND noDescendMask = 0"
        "KindOf ?t = StructKind" "i \<in> set (exportedFields ?t)"
        "val \<in> set (recursive b (ix @ [i]) (fs @ [Field_t ?t i]) filters)"
    by (subst (asm) recursive_set) (auto split: if_splits)
  then show ?case
  proof cases
    case own
    then obtain v where v: "newValue b ix fs = Some v"
      using Filter_None_masks(1) [of filters] by (cases "newValue b ix fs") auto
    from newValue_Some [OF v] own(2) v show ?thesis
      by auto
  next
    case (child i)
    from step.IH [OF child(1,2,3) child(4)] show ?thesis
      by auto
  qed
qed







lemma Recursive_nodes:
  assumes "val \<in> set (Recursive (Any t r) filters)"
  shows "\<exists>v. val = Some v \<and> path_ok t (fieldsIndexes v) (fields_v v) \<and>
     val = newValue (ValueOf_root t) (fieldsIndexes v) (fields_v v)"
proof -
  from assms have "val \<in> set (recursive (ValueOf_root t) [] [] filters)"
    by (auto simp: Recursive_def Let_def split: if_splits)
  from recursive_nodes [OF this] show ?thesis
    by (auto simp: ValueOf_root_def)
qed


lemma Filter_foldr:
  "Filter (Some v) filters = foldr (\<lambda>cond r. cond (Some v) OR r) filters 0"
  by (induction filters) (simp_all add: Filter_Cons Filter_Nil IncludeAndDescend_def)

lemma recursive_skip:
  assumes "Filter (newValue b ix fs) filters AND skipMask \<noteq> 0"
    and "val \<in> set (recursive b ix fs filters)"
  shows "val \<noteq> newValue b ix fs \<and> fieldsIndexes (the val) \<noteq> ix"
proof -
  let ?t = "elemIfPtrType (posType b fs)"
  from assms obtain i where "val \<in> set (recursive b (ix @ [i]) (fs @ [Field_t ?t i]) filters)"
    by (subst (asm) (2) recursive_set) (auto split: if_splits)
  from recursive_prefix [OF this] obtain v r where v: "val = Some v" "fieldsIndexes v = ix @ i # r"
    by auto
  have "val \<noteq> newValue b ix fs"
  proof
    assume "val = newValue b ix fs"
    with v(1) have "fieldsIndexes v = ix" using newValue_Some [of b ix fs v] by simp
    with v(2) show False by simp
  qed
  with v show ?thesis by simp
qed

lemma recursive_noDescend:
  assumes "Filter (newValue b ix fs) filters AND noDescendMask \<noteq> 0"
  shows "recursive b ix fs filters =
    (if Filter (newValue b ix fs) filters AND skipMask = 0 then [newValue b ix fs] else [])"
  using assms by (subst recursive_unfold) (simp add: Let_def)

subsection \<open>Claims about the discovery\<close>

text \<open>
  Claim C1 says that \<^verbatim>\<open>IsBoolFlag()\<close> is true exactly for nodes of the boolean scalar
  kind, and false for a list of booleans. The code does the opposite on both:
  \<^verbatim>\<open>newBoolValue\<close> leaves \<^verbatim>\<open>isBool\<close> at its zero value and \<^verbatim>\<open>newBoolSliceValue\<close> is
  the only constructor that sets it. The theorem evaluates \<^verbatim>\<open>New(&b).IsBoolFlag()\<close> for a
  \<^verbatim>\<open>bool\<close> and \<^verbatim>\<open>New(&xs).IsBoolFlag()\<close> for a \<^verbatim>\<open>[]bool\<close>.
\<close>

theorem IsBoolFlag_of_bool_and_bool_list:
  "IsBoolFlag (New (Any (PointerT BoolT) (VPtr (Some (VBool x))))) = False \<and>
   IsBoolFlag (New (Any (PointerT (SliceT BoolT)) (VPtr (Some (VSlice xs))))) = True"
  by (simp add: IsBoolFlag_def New_def ValueOf_root_def Kind_v_def IsNil_def newValue_def
      newSliceValue_def newBoolValue_def newBoolSliceValue_def isInitialized_def)

theorem IsBoolFlag_of_bool_and_bool_list_witness:
  "IsBoolFlag (New (Any (PointerT BoolT) (VPtr (Some (VBool True))))) = False \<and>
   IsBoolFlag (New (Any (PointerT (SliceT BoolT)) (VPtr (Some (VSlice None))))) = True"
  by (rule IsBoolFlag_of_bool_and_bool_list)

text \<open>
  Claim C4: the combined filter decision is the bitwise OR of the individual votes. A nil
  node yields \<^verbatim>\<open>SkipNoDescend\<close>; for a node the result is the OR of all votes, it does not
  depend on the order of the filters (any two lists with the same multiset of filters agree),
  its skip bit is set exactly when some filter sets it and likewise its no-descend bit; in
  \<^verbatim>\<open>recursive\<close> a set skip bit keeps the node (and any node with its index path) out of
  the result, and a set no-descend bit makes the result at most the node itself.
\<close>

theorem Filter_bitwise_or:
  "Filter None filters = SkipNoDescend \<and>
   Filter (Some v) filters = foldr (\<lambda>cond r. cond (Some v) OR r) filters 0 \<and>
   (mset filters = mset filters' \<longrightarrow> Filter val filters = Filter val filters') \<and>
   ((\<exists>f \<in> set filters. f (Some v) AND skipMask \<noteq> 0)
      \<longleftrightarrow> Filter (Some v) filters AND skipMask \<noteq> 0) \<and>
   ((\<exists>f \<in> set filters. f (Some v) AND noDescendMask \<noteq> 0)
      \<longleftrightarrow> Filter (Some v) filters AND noDescendMask \<noteq> 0) \<and>
   (Filter (newValue b ix fs) filters AND skipMask \<noteq> 0 \<longrightarrow>
      (\<forall>val \<in> set (recursive b ix fs filters).
         val \<noteq> newValue b ix fs \<and> fieldsIndexes (the val) \<noteq> ix)) \<and>
   (Filter (newValue b ix fs) filters AND noDescendMask \<noteq> 0 \<longrightarrow>
      recursive b ix fs filters =
        (if Filter (newValue b ix fs) filters AND skipMask = 0 then [newValue b ix fs] else []))"
proof (intro conjI)
  show "Filter None filters = SkipNoDescend"
    by (simp add: Filter_def)
  show "Filter (Some v) filters = foldr (\<lambda>cond r. cond (Some v) OR r) filters 0"
    by (rule Filter_foldr)
  show "mset filters = mset filters' \<longrightarrow> Filter val filters = Filter val filters'"
    using Filter_mset [of filters filters' val] by blast
  show "(\<exists>f \<in> set filters. f (Some v) AND skipMask \<noteq> 0)
      \<longleftrightarrow> Filter (Some v) filters AND skipMask \<noteq> 0"
    by (simp only: Filter_mask)
  show "(\<exists>f \<in> set filters. f (Some v) AND noDescendMask \<noteq> 0)
      \<longleftrightarrow> Filter (Some v) filters AND noDescendMask \<noteq> 0"
    by (simp only: Filter_mask)
  show "Filter (newValue b ix fs) filters AND skipMask \<noteq> 0 \<longrightarrow>
      (\<forall>val \<in> set (recursive b ix fs filters).
         val \<noteq> newValue b ix fs \<and> fieldsIndexes (the val) \<noteq> ix)"
    using recursive_skip [of b ix fs filters] by blast
  show "Filter (newValue b ix fs) filters AND noDescendMask \<noteq> 0 \<longrightarrow>
      recursive b ix fs filters =
        (if Filter (newValue b ix fs) filters AND skipMask = 0 then [newValue b ix fs] else [])"
    using recursive_noDescend [of b ix fs filters] by blast
qed

theorem Filter_bitwise_or_witness:
  "mset [\<lambda>val. IncludeAndDescend, \<lambda>val. SkipNoDescend]
     = mset [\<lambda>val. SkipNoDescend, \<lambda>val :: Value option. IncludeAndDescend] \<and>
   Filter (New exRoot) [\<lambda>val. IncludeAndDescend, \<lambda>val. SkipNoDescend]
     = Filter (New exRoot) [\<lambda>val. SkipNoDescend, \<lambda>val. IncludeAndDescend] \<and>
   Filter (New exRoot) [\<lambda>val. IncludeAndDescend, \<lambda>val. SkipNoDescend] = SkipNoDescend \<and>
   Recursive exRoot [\<lambda>val. IncludeAndDescend, \<lambda>val. SkipNoDescend] = [] \<and>
   Recursive exRoot [\<lambda>val. SkipNoDescend, \<lambda>val. IncludeAndDescend] = []"
proof -
  have m: "mset [\<lambda>val. IncludeAndDescend, \<lambda>val. SkipNoDescend]
     = mset [\<lambda>val. SkipNoDescend, \<lambda>val :: Value option. IncludeAndDescend]"
    by (simp add: add.commute)
  have "Filter (New exRoot) [\<lambda>val. IncludeAndDescend, \<lambda>val. SkipNoDescend]
     = Filter (New exRoot) [\<lambda>val. SkipNoDescend, \<lambda>val. IncludeAndDescend]"
    using Filter_bitwise_or [THEN conjunct2, THEN conjunct2, THEN conjunct1] m by (rule mp)
  moreover have "Filter (New exRoot) [\<lambda>val. IncludeAndDescend, \<lambda>val. SkipNoDescend] = SkipNoDescend"
    by code_simp
  moreover have "Recursive exRoot [\<lambda>val. IncludeAndDescend, \<lambda>val. SkipNoDescend] = []"
    by code_simp
  moreover have "Recursive exRoot [\<lambda>val. SkipNoDescend, \<lambda>val. IncludeAndDescend] = []"
    by code_simp
  ultimately show ?thesis using m by (intro conjI)
qed







text \<open>
  Claim C9: for a nil interface, a nil pointer and any value that is not a pointer (what
  \<^verbatim>\<open>reflect.ValueOf\<close> returns is never settable) \<^verbatim>\<open>New\<close> returns nil and
  \<^verbatim>\<open>Recursive\<close> the empty result. Both functions are total in the model: there is no
  error or panic they could return.
\<close>

theorem New_Recursive_unusable_root:
  "New NilAny = None \<and> Recursive NilAny filters = [] \<and>
   New (Any (PointerT T) (VPtr None)) = None \<and>
   Recursive (Any (PointerT T) (VPtr None)) filters = [] \<and>
   (KindOf t \<noteq> PointerKind \<longrightarrow> New (Any t v) = None \<and> Recursive (Any t v) filters = [])"
  by (simp add: New_def Recursive_def ValueOf_root_def Kind_v_def IsNil_def)

theorem New_Recursive_unusable_root_witness:
  "KindOf StringT \<noteq> PointerKind \<and> New (Any StringT (VString [])) = None \<and>
   Recursive (Any StringT (VString [])) [] = [] \<and>
   New (Any (PointerT exT) (VPtr None)) = None \<and>
   Recursive (Any (PointerT exT) (VPtr None)) [] = []"
  using New_Recursive_unusable_root [of "[]" exT StringT "VString []"] by simp

section \<open>The store and the positions of nodes\<close>

lemma store_set_get_same: "store_get p s = Some v \<Longrightarrow> store_set p v s = Some s"
proof (induction p s arbitrary: v rule: store_get.induct)
  case (3 i p vs)
  then show ?case by (auto split: if_splits simp: list_update_same_conv)
qed auto

lemma store_set_defined: "store_get p s = Some v \<Longrightarrow> \<exists>s'. store_set p x s = Some s'"
proof (induction p s arbitrary: v rule: store_get.induct)
  case (2 p w)
  then obtain s' where "store_set p x w = Some s'" by fastforce
  then show ?case by simp
next
  case (3 i p vs)
  then have "i < length vs" by (auto split: if_splits)
  moreover with 3 obtain s' where "store_set p x (vs ! i) = Some s'" by fastforce
  ultimately show ?case by simp
qed auto

lemma store_get_set: "store_set p x s = Some s' \<Longrightarrow> store_get p s' = Some x"
proof (induction p x s arbitrary: s' rule: store_set.induct)
  case (3 i p x vs)
  then show ?case by (auto split: if_splits)
qed auto

lemma store_set_set: "store_set p x s = Some s' \<Longrightarrow> store_set p y s' = store_set p y s"
proof (induction p x s arbitrary: s' rule: store_set.induct)
  case (3 i p x vs)
  then show ?case by (auto split: if_splits simp: map_option_case split: option.splits)
qed auto

lemma store_get_append:
  "store_get (p @ q) s = Option.bind (store_get p s) (store_get q)"
proof (induction p s rule: store_get.induct)
  case (1 v)
  show ?case by simp
qed auto

lemma store_set_append:
  "store_get p s = Some v \<Longrightarrow>
   store_set (p @ q) x s = Option.bind (store_set q x v) (\<lambda>v'. store_set p v' s)"
proof (induction p s arbitrary: v rule: store_get.induct)
  case (2 p w)
  then show ?case by (cases "store_set q x v") auto
next
  case (3 i p vs)
  then show ?case by (cases "store_set q x v") (auto split: if_splits)
qed auto

lemma KindOf_Pointer: "KindOf t = PointerKind \<longleftrightarrow> t = PointerT (Elem_t t)"
  by (cases t) auto

lemma KindOf_Struct: "KindOf t = StructKind \<longleftrightarrow> (\<exists>fs. t = StructT fs)"
  by (cases t) auto

lemma Kind_v_InStore [simp]: "Kind_v (InStore t p c) = KindOf t"
  by (simp add: Kind_v_def)

lemma Kind_v_Temp [simp]: "Kind_v (Temp t v) = KindOf t"
  by (simp add: Kind_v_def)

lemma IsNil_InStore: "store_get p s = Some v \<Longrightarrow> IsNil (InStore t p c) s = is_nil v"
  by (simp add: IsNil_def)

lemma allocIfNil_eq:
  assumes "store_get p s = Some v" and "c \<or> \<not> (KindOf t = PointerKind \<and> is_nil v)"
  shows "allocIfNil (InStore t p c) s = store_set p (alloc t [] v) s"
proof (cases "KindOf t = PointerKind \<and> is_nil v")
  case True
  then have t: "t = PointerT (Elem_t t)" by (simp add: KindOf_Pointer [symmetric])
  from True assms have c by simp
  have "Set_v (InStore t p c) (New_v (Elem_t t)) s = store_set p (VPtr (Some (zero (Elem_t t)))) s"
    using \<open>c\<close> t by (subst (2) t) (simp add: New_v_def)
  with True assms(1) show ?thesis
    by (simp add: allocIfNil_def IsNil_InStore)
next
  case False
  with assms(1) show ?thesis
    by (auto simp: allocIfNil_def IsNil_InStore store_set_get_same)
qed

lemma fbi_tail_Nil: "fbi_tail v [] s = Option.bind (allocIfNil v s) (\<lambda>s'. Some (v, s'))"
  by (simp add: fbi_tail_def)

lemma fbi_tail_Cons:
  "fbi_tail v (x # index) s = do {
     (v, s) \<leftarrow> (if Kind_v v = PointerKind
                then do { s \<leftarrow> allocIfNil v s; v \<leftarrow> Elem_v v s; Some (v, s) }
                else Some (v, s));
     v \<leftarrow> Field_v v x;
     fbi_tail v index s
   }"
  by (simp add: fbi_tail_def split: prod.splits bind_splits)


lemma zero_StructT_nth:
  "i < length fs \<Longrightarrow> zero (StructT fs) = VStruct (map (\<lambda>f. zero (Type f)) fs)"
  by simp

lemma fbi_tail_eq:
  assumes "store_get p s = Some v" and "along t ix v"
    and "c \<or> (KindOf t = PointerKind \<and> \<not> is_nil v)"
  shows "fbi_tail (InStore t p c) ix s =
     Option.bind (store_set p (alloc t ix v) s)
       (\<lambda>s'. Some (InStore (typeAt t ix) (p @ loc t ix) (c \<or> ix \<noteq> []), s'))"
  using assms
proof (induction ix arbitrary: t p c s v)
  case Nil
  have pre: "c \<or> \<not> (KindOf t = PointerKind \<and> is_nil v)"
    using Nil.prems(3) by auto
  show ?case
    using allocIfNil_eq [OF Nil.prems(1) pre] by (simp add: fbi_tail_Nil del: alloc.simps)
next
  case (Cons i ix)
  from Cons.prems(2) obtain fs where fs: "elemIfPtrType t = StructT fs"
    by (auto split: rtype.splits)
  with Cons.prems(2) have i: "i < length fs" "IsExported (fs ! i)" by auto
  let ?ti = "Type (fs ! i)"
  show ?case
  proof (cases "KindOf t = PointerKind")
    case True
    with fs have t: "t = PointerT (StructT fs)"
      by (cases t) (auto simp: elemIfPtrType_def)
    define x0 where "x0 = (case v of VPtr (Some x) \<Rightarrow> x | _ \<Rightarrow> zero (StructT fs))"
    from Cons.prems(2) True fs obtain vs where vs: "x0 = VStruct vs" "length vs = length fs"
      "along ?ti ix (vs ! i)"
      unfolding x0_def by (auto split: gval.splits option.splits)
    from Cons.prems(2) True fs
    have v: "(v = VPtr None \<and> x0 = zero (StructT fs)) \<or> v = VPtr (Some x0)"
      unfolding x0_def by (auto split: gval.splits option.splits)
    have a0: "alloc t [] v = VPtr (Some x0)"
      using v by (elim disjE conjE) (simp_all add: t)
    have pre: "c \<or> \<not> (KindOf t = PointerKind \<and> is_nil v)"
      using Cons.prems(3) by auto
    obtain s1 where s1: "store_set p (VPtr (Some x0)) s = Some s1"
      using store_set_defined [OF Cons.prems(1)] by blast
    have g1: "store_get p s1 = Some (VPtr (Some (VStruct vs)))"
      using store_get_set [OF s1] vs(1) by simp
    have step1: "allocIfNil (InStore t p c) s = Some s1"
      using allocIfNil_eq [OF Cons.prems(1) pre] a0 s1 by simp
    have step2: "Elem_v (InStore t p c) s1 = Some (InStore (StructT fs) (p @ [Deref]) True)"
      using g1 t by simp
    have step3: "Field_v (InStore (StructT fs) (p @ [Deref]) True) i
        = Some (InStore ?ti (p @ [Deref, FieldAt i]) True)"
      using i by simp
    have g2: "store_get (p @ [Deref, FieldAt i]) s1 = Some (vs ! i)"
      using g1 i vs(2) by (simp add: store_get_append)
    have IH: "fbi_tail (InStore ?ti (p @ [Deref, FieldAt i]) True) ix s1 =
       Option.bind (store_set (p @ [Deref, FieldAt i]) (alloc ?ti ix (vs ! i)) s1)
         (\<lambda>s'. Some (InStore (typeAt ?ti ix) ((p @ [Deref, FieldAt i]) @ loc ?ti ix) True, s'))"
      using Cons.IH [OF g2 vs(3), of True] by simp
    have set: "store_set (p @ [Deref, FieldAt i]) y s1
        = store_set p (VPtr (Some (VStruct (vs[i := y])))) s" for y
      using store_set_append [OF g1, of "[Deref, FieldAt i]" y] i vs(2) store_set_set [OF s1]
      by simp
    have al: "alloc t (i # ix) v = VPtr (Some (VStruct (vs[i := alloc ?ti ix (vs ! i)])))"
      using v vs(1) by (elim disjE conjE) (simp_all add: t Let_def elemIfPtrType_def)
    have "fbi_tail (InStore t p c) (i # ix) s = fbi_tail (InStore ?ti (p @ [Deref, FieldAt i]) True) ix s1"
      using True step1 step2 step3 by (simp add: fbi_tail_Cons)
    also note IH
    finally show ?thesis
      using set al t fs by (simp add: elemIfPtrType_def)
  next
    case False
    with fs have t: "t = StructT fs" by (simp add: elemIfPtrType_def)
    from False Cons.prems(3) have c by simp
    from Cons.prems(2) False fs obtain vs where vs: "v = VStruct vs" "length vs = length fs"
      "along ?ti ix (vs ! i)"
      by (auto split: gval.splits)
    have step3: "Field_v (InStore t p c) i = Some (InStore ?ti (p @ [FieldAt i]) True)"
      using i t \<open>c\<close> by simp
    have g2: "store_get (p @ [FieldAt i]) s = Some (vs ! i)"
      using Cons.prems(1) vs i by (simp add: store_get_append)
    have IH: "fbi_tail (InStore ?ti (p @ [FieldAt i]) True) ix s =
       Option.bind (store_set (p @ [FieldAt i]) (alloc ?ti ix (vs ! i)) s)
         (\<lambda>s'. Some (InStore (typeAt ?ti ix) ((p @ [FieldAt i]) @ loc ?ti ix) True, s'))"
      using Cons.IH [OF g2 vs(3), of True] by simp
    have set: "store_set (p @ [FieldAt i]) y s = store_set p (VStruct (vs[i := y])) s" for y
      using store_set_append [OF Cons.prems(1), of "[FieldAt i]" y] i vs by simp
    have al: "alloc t (i # ix) v = VStruct (vs[i := alloc ?ti ix (vs ! i)])"
      using vs(1) t by (simp add: Let_def elemIfPtrType_def)
    have "fbi_tail (InStore t p c) (i # ix) s = fbi_tail (InStore ?ti (p @ [FieldAt i]) True) ix s"
      using False step3 by (simp add: fbi_tail_Cons)
    also note IH
    finally show ?thesis
      using set al t by (simp add: elemIfPtrType_def)
  qed
qed

lemma wt_zero: "wt t (zero t)"
proof (induction t)
  case (StructT fs)
  have "list_all2 (\<lambda>f x. wt (Type f) x) fs (map (\<lambda>f. zero (Type f)) fs)"
    unfolding list_all2_map2
  proof (rule list_all2_same [THEN iffD2], rule ballI)
    fix f assume "f \<in> set fs"
    moreover have "Type f \<in> set_StructField_of f"
      by (cases f) simp
    ultimately show "wt (Type f) (zero (Type f))"
      using StructT by blast
  qed
  then show ?case by simp
qed (simp_all add: list_all_iff)

lemma wt_along:
  "wt t v \<Longrightarrow> path_ok t ix fs \<Longrightarrow> along t ix v"
proof (induction t ix fs arbitrary: v rule: path_ok.induct)
  case (1 t)
  then show ?case by (cases t) (auto split: gval.splits)
next
  case (2 t i ix f fs)
  from "2.prems"(2) obtain gs where gs: "elemIfPtrType t = StructT gs" "i < length gs"
    "f = gs ! i" "IsExported f" "path_ok (Type f) ix fs"
    by (auto simp: KindOf_Struct)
  show ?case
  proof (cases "KindOf t = PointerKind")
    case True
    with gs have t: "t = PointerT (StructT gs)"
      by (cases t) (auto simp: elemIfPtrType_def)
    define x where "x = (case v of VPtr (Some y) \<Rightarrow> y | _ \<Rightarrow> zero (StructT gs))"
    have "wt (StructT gs) x"
      using "2.prems"(1) wt_zero [of "StructT gs"] unfolding x_def t
      by (auto split: gval.splits option.splits simp del: zero.simps)
    then obtain vs where vs: "x = VStruct vs" "list_all2 (\<lambda>f x. wt (Type f) x) gs vs"
      by (auto split: gval.splits)
    then have "length vs = length gs" "wt (Type (gs ! i)) (vs ! i)"
      using gs(2) by (auto simp: list_all2_conv_all_nth)
    moreover then have "along (Type (gs ! i)) ix (vs ! i)"
      using "2.IH" gs by simp
    moreover have "v = VPtr None \<or> v = VPtr (Some x)"
      using "2.prems"(1) unfolding x_def t by (auto split: gval.splits option.splits)
    ultimately show ?thesis
      using gs vs(1) True unfolding x_def
      by (auto simp del: zero.simps split: gval.splits option.splits)
  next
    case False
    with gs have t: "t = StructT gs" by (simp add: elemIfPtrType_def)
    from "2.prems"(1) obtain vs where vs: "v = VStruct vs" "list_all2 (\<lambda>f x. wt (Type f) x) gs vs"
      unfolding t by (auto split: gval.splits)
    then have "length vs = length gs" "wt (Type (gs ! i)) (vs ! i)"
      using gs(2) by (auto simp: list_all2_conv_all_nth)
    moreover then have "along (Type (gs ! i)) ix (vs ! i)"
      using "2.IH" gs by simp
    ultimately show ?thesis
      using gs vs(1) False by simp
  qed
qed simp_all

lemma typeAt_path_ok:
  "path_ok t ix fs \<Longrightarrow> typeAt t ix = (if length fs > 0 then Type (last fs) else t)"
  by (induction t ix fs rule: path_ok.induct) (auto simp: path_ok_Nil_left)

lemma tloc_Cons:
  "tloc t (i # ix) = (if KindOf t = PointerKind then [Deref] else []) @
     FieldAt i # tloc (Type (Field_t (elemIfPtrType t) i)) ix"
  by (simp add: tloc_def)

lemma elemIfPtrType_simps [simp]:
  "elemIfPtrType (PointerT t) = t" "elemIfPtrType (StructT fs) = StructT fs"
  by (simp_all add: elemIfPtrType_def)

lemma elemIfPtrType_StructT:
  assumes "elemIfPtrType t = StructT fs"
  shows "(KindOf t = PointerKind \<and> t = PointerT (StructT fs)) \<or> (KindOf t \<noteq> PointerKind \<and> t = StructT fs)"
  using assms by (cases "KindOf t = PointerKind") (auto simp: elemIfPtrType_def KindOf_Pointer)

lemma allocated_Cons_cases:
  assumes "allocated t (i # ix) v"
  obtains (ptr) fs vs where "t = PointerT (StructT fs)" "v = VPtr (Some (VStruct vs))"
      "i < length fs" "IsExported (fs ! i)" "length vs = length fs"
      "allocated (Type (fs ! i)) ix (vs ! i)"
    | (str) fs vs where "t = StructT fs" "v = VStruct vs"
      "i < length fs" "IsExported (fs ! i)" "length vs = length fs"
      "allocated (Type (fs ! i)) ix (vs ! i)"
proof -
  from assms obtain fs where fs: "elemIfPtrType t = StructT fs"
    by (auto split: rtype.splits)
  from elemIfPtrType_StructT [OF fs] show ?thesis
  proof (elim disjE conjE)
    assume t: "KindOf t = PointerKind" "t = PointerT (StructT fs)"
    with assms obtain vs where "v = VPtr (Some (VStruct vs))" "i < length fs" "IsExported (fs ! i)"
      "length vs = length fs" "allocated (Type (fs ! i)) ix (vs ! i)"
      by (auto split: gval.splits option.splits)
    with t show ?thesis by (intro ptr)
  next
    assume t: "KindOf t \<noteq> PointerKind" "t = StructT fs"
    with assms obtain vs where "v = VStruct vs" "i < length fs" "IsExported (fs ! i)"
      "length vs = length fs" "allocated (Type (fs ! i)) ix (vs ! i)"
      by (auto split: gval.splits)
    with t show ?thesis by (intro str)
  qed
qed

lemma along_Cons_cases:
  assumes "along t (i # ix) v"
  obtains (nil) fs where "t = PointerT (StructT fs)" "v = VPtr None"
      "i < length fs" "IsExported (fs ! i)"
      "along (Type (fs ! i)) ix (zero (Type (fs ! i)))"
    | (ptr) fs vs where "t = PointerT (StructT fs)" "v = VPtr (Some (VStruct vs))"
      "i < length fs" "IsExported (fs ! i)" "length vs = length fs"
      "along (Type (fs ! i)) ix (vs ! i)"
    | (str) fs vs where "t = StructT fs" "v = VStruct vs"
      "i < length fs" "IsExported (fs ! i)" "length vs = length fs"
      "along (Type (fs ! i)) ix (vs ! i)"
proof -
  from assms obtain fs where fs: "elemIfPtrType t = StructT fs"
    by (auto split: rtype.splits)
  from elemIfPtrType_StructT [OF fs] show ?thesis
  proof (elim disjE conjE)
    assume t: "KindOf t = PointerKind" "t = PointerT (StructT fs)"
    from assms t have i: "i < length fs" "IsExported (fs ! i)" by auto
    show ?thesis
    proof (cases "v = VPtr None")
      case True
      with assms t i have "along (Type (fs ! i)) ix (zero (Type (fs ! i)))" by simp
      with t True i show ?thesis by (intro nil)
    next
      case False
      with assms t obtain vs where "v = VPtr (Some (VStruct vs))"
        "length vs = length fs" "along (Type (fs ! i)) ix (vs ! i)"
        by (auto split: gval.splits option.splits)
      with t i show ?thesis by (intro ptr)
    qed
  next
    assume t: "KindOf t \<noteq> PointerKind" "t = StructT fs"
    with assms obtain vs where "v = VStruct vs" "i < length fs" "IsExported (fs ! i)"
      "length vs = length fs" "along (Type (fs ! i)) ix (vs ! i)"
      by (auto split: gval.splits)
    with t show ?thesis by (intro str)
  qed
qed

lemma allocated_alloc: "along t ix v \<Longrightarrow> allocated t ix (alloc t ix v)"
proof (induction ix arbitrary: t v)
  case Nil
  then show ?case by (auto split: gval.splits option.splits)
next
  case (Cons i ix)
  from Cons.prems show ?case
  proof (cases rule: along_Cons_cases)
    case (nil fs)
    with Cons.IH [OF nil(5)] show ?thesis by (simp add: Let_def)
  next
    case (ptr fs vs)
    with Cons.IH [OF ptr(6)] show ?thesis by (simp add: Let_def)
  next
    case (str fs vs)
    with Cons.IH [OF str(6)] show ?thesis by (simp add: Let_def)
  qed
qed

lemma alloc_allocated: "allocated t ix v \<Longrightarrow> alloc t ix v = v"
proof (induction ix arbitrary: t v)
  case Nil
  then show ?case by (auto split: gval.splits option.splits)
next
  case (Cons i ix)
  from Cons.prems show ?case
  proof (cases rule: allocated_Cons_cases)
    case (ptr fs vs)
    with Cons.IH [OF ptr(6)] show ?thesis by (simp add: Let_def list_update_same_conv)
  next
    case (str fs vs)
    with Cons.IH [OF str(6)] show ?thesis by (simp add: Let_def list_update_same_conv)
  qed
qed

lemma allocated_along: "allocated t ix v \<Longrightarrow> along t ix v"
proof (induction ix arbitrary: t v)
  case Nil
  then show ?case by (auto split: gval.splits option.splits)
next
  case (Cons i ix)
  from Cons.prems show ?case
  proof (cases rule: allocated_Cons_cases)
    case (ptr fs vs)
    with Cons.IH [OF ptr(6)] show ?thesis by simp
  next
    case (str fs vs)
    with Cons.IH [OF str(6)] show ?thesis by simp
  qed
qed

lemma allocated_store_get:
  "allocated t ix v \<Longrightarrow>
   \<exists>vp. store_get (loc t ix) v = Some vp \<and>
     (KindOf (typeAt t ix) = PointerKind \<longrightarrow> (\<exists>x. vp = VPtr (Some x)))"
proof (induction ix arbitrary: t v)
  case Nil
  then show ?case by (auto split: gval.splits option.splits)
next
  case (Cons i ix)
  from Cons.prems show ?case
  proof (cases rule: allocated_Cons_cases)
    case (ptr fs vs)
    with Cons.IH [OF ptr(6)] show ?thesis by simp
  next
    case (str fs vs)
    with Cons.IH [OF str(6)] show ?thesis by simp
  qed
qed

lemma allocated_store_set:
  "allocated t ix v \<Longrightarrow> store_set (tloc t ix) x v = Some v' \<Longrightarrow> allocated t ix v'"
proof (induction ix arbitrary: t v v')
  case Nil
  then show ?case
    by (auto simp: tloc_def split: gval.splits option.splits if_splits)
next
  case (Cons i ix)
  from Cons.prems(1) show ?case
  proof (cases rule: allocated_Cons_cases)
    case (ptr fs vs)
    with Cons.prems(2) obtain y where y: "store_set (tloc (Type (fs ! i)) ix) x (vs ! i) = Some y"
      "v' = VPtr (Some (VStruct (vs[i := y])))"
      by (auto simp: tloc_Cons)
    from Cons.IH [OF ptr(6) y(1)] ptr y(2) show ?thesis by simp
  next
    case (str fs vs)
    with Cons.prems(2) obtain y where y: "store_set (tloc (Type (fs ! i)) ix) x (vs ! i) = Some y"
      "v' = VStruct (vs[i := y])"
      by (auto simp: tloc_Cons)
    from Cons.IH [OF str(6) y(1)] str y(2) show ?thesis by simp
  qed
qed

lemma allocated_tloc_get:
  assumes "allocated t ix v"
  shows "\<exists>x. store_get (tloc t ix) v = Some x"
proof -
  from allocated_store_get [OF assms] obtain vp where vp: "store_get (loc t ix) v = Some vp"
    "KindOf (typeAt t ix) = PointerKind \<longrightarrow> (\<exists>x. vp = VPtr (Some x))" by blast
  then show ?thesis
    by (auto simp: tloc_def store_get_append)
qed

lemma get_eq:
  assumes "base v = Some (InStore T [] False)" and "KindOf T = PointerKind" and "\<not> is_nil r"
    and "along T (fieldsIndexes v) r"
  shows "get v r = Some (InStore (typeAt T (fieldsIndexes v)) (loc T (fieldsIndexes v))
      (fieldsIndexes v \<noteq> []), alloc T (fieldsIndexes v) r)"
proof -
  let ?ix = "fieldsIndexes v"
  have pre: "False \<or> (KindOf T = PointerKind \<and> \<not> is_nil r)"
    using assms(2,3) by simp
  have g: "store_get [] r = Some r" by simp
  have tail: "fbi_tail (InStore T [] False) ?ix r =
      Some (InStore (typeAt T ?ix) (loc T ?ix) (?ix \<noteq> []), alloc T ?ix r)"
    using fbi_tail_eq [OF g assms(4) pre] by simp
  show ?thesis
  proof (cases ?ix)
    case Nil
    with tail show ?thesis
      using assms(1) by (simp add: get_def fieldByIndex_def fbi_tail_Nil)
  next
    case (Cons i ix')
    with assms(4) obtain fs where "elemIfPtrType T = StructT fs"
      by (auto split: rtype.splits)
    with assms(2) have "KindOf (Elem_t T) = StructKind"
      by (simp add: elemIfPtrType_def)
    with tail Cons assms(1,2) show ?thesis
      by (simp add: get_def fieldByIndex_def fbi_tail_def)
  qed
qed

lemma elemIfPtrType_alt: "elemIfPtrType t = (if KindOf t = PointerKind then Elem_t t else t)"
  by (simp add: elemIfPtrType_def)

lemma newValue_switch:
  "newValue b ix fs =
    (case KindOf (elemIfPtrType (posType b fs)) of
     BoolKind \<Rightarrow> newBoolValue b ix fs
   | IntKind \<Rightarrow> newIntValue b ix fs
   | Int8Kind \<Rightarrow> newInt8Value b ix fs
   | Int16Kind \<Rightarrow> newInt16Value b ix fs
   | Int32Kind \<Rightarrow> newInt32Value b ix fs
   | Int64Kind \<Rightarrow> newInt64Value b ix fs
   | UintKind \<Rightarrow> newUintValue b ix fs
   | Uint8Kind \<Rightarrow> newUint8Value b ix fs
   | Uint16Kind \<Rightarrow> newUint16Value b ix fs
   | Uint32Kind \<Rightarrow> newUint32Value b ix fs
   | Uint64Kind \<Rightarrow> newUint64Value b ix fs
   | Float32Kind \<Rightarrow> newFloat32Value b ix fs
   | Float64Kind \<Rightarrow> newFloat64Value b ix fs
   | Complex64Kind \<Rightarrow> newComplex64Value b ix fs
   | Complex128Kind \<Rightarrow> newComplex128Value b ix fs
   | StringKind \<Rightarrow> newStringValue b ix fs
   | SliceKind \<Rightarrow> newSliceValue (elemIfPtrType (posType b fs)) b ix fs
   | MapKind \<Rightarrow> newMapValue b ix fs
   | StructKind \<Rightarrow> newStructValue b ix fs
   | _ \<Rightarrow> None)"
  unfolding newValue_def Let_def posType_def elemIfPtrType_alt by (rule refl)

lemma newSliceValue_switch:
  "newSliceValue typ b ix fs =
    (case KindOf (elemIfPtrType (Elem_t typ)) of
     BoolKind \<Rightarrow> newBoolSliceValue b ix fs
   | IntKind \<Rightarrow> newIntSliceValue b ix fs
   | Int8Kind \<Rightarrow> newInt8SliceValue b ix fs
   | Int16Kind \<Rightarrow> newInt16SliceValue b ix fs
   | Int32Kind \<Rightarrow> newInt32SliceValue b ix fs
   | Int64Kind \<Rightarrow> newInt64SliceValue b ix fs
   | UintKind \<Rightarrow> newUintSliceValue b ix fs
   | Uint8Kind \<Rightarrow>
       if KindOf (Elem_t typ) = Uint8Kind then newBytesValue b ix fs
       else newUint8SliceValue b ix fs
   | Uint16Kind \<Rightarrow> newUint16SliceValue b ix fs
   | Uint32Kind \<Rightarrow> newUint32SliceValue b ix fs
   | Uint64Kind \<Rightarrow> newUint64SliceValue b ix fs
   | Float32Kind \<Rightarrow> newFloat32SliceValue b ix fs
   | Float64Kind \<Rightarrow> newFloat64SliceValue b ix fs
   | Complex64Kind \<Rightarrow> newComplex64SliceValue b ix fs
   | Complex128Kind \<Rightarrow> newComplex128SliceValue b ix fs
   | StringKind \<Rightarrow> newStringSliceValue b ix fs
   | SliceKind \<Rightarrow>
       if KindOf (Elem_t (elemIfPtrType (Elem_t typ))) = Uint8Kind then newBytesSliceValue b ix fs
       else newSliceSliceValue b ix fs
   | MapKind \<Rightarrow> newMapSliceValue b ix fs
   | StructKind \<Rightarrow> newStructSliceValue b ix fs
   | _ \<Rightarrow> None)"
  unfolding newSliceValue_def Let_def elemIfPtrType_alt by (rule refl)

lemma allocated_not_nil: "KindOf T = PointerKind \<Longrightarrow> allocated T ix s \<Longrightarrow> \<not> is_nil s"
proof (cases ix)
  case Nil
  assume "KindOf T = PointerKind" "allocated T ix s"
  with Nil show ?thesis by (auto split: gval.splits option.splits)
next
  case (Cons i ix')
  assume "KindOf T = PointerKind" and a: "allocated T ix s"
  from a [unfolded Cons] show ?thesis
    by (cases rule: allocated_Cons_cases) (use \<open>KindOf T = PointerKind\<close> in auto)
qed

lemma get_allocated:
  assumes "base v = Some (InStore T [] False)" and "KindOf T = PointerKind"
    and "allocated T (fieldsIndexes v) s"
  shows "get v s = Some (InStore (typeAt T (fieldsIndexes v)) (loc T (fieldsIndexes v))
      (fieldsIndexes v \<noteq> []), s)"
  using get_eq [OF assms(1,2) allocated_not_nil [OF assms(2,3)] allocated_along [OF assms(3)]]
    alloc_allocated [OF assms(3)] by simp

lemma elemIfPtr_allocated:
  assumes "allocated T ix s"
  shows "elemIfPtr (InStore (typeAt T ix) (loc T ix) c) s =
     Some (InStore (elemIfPtrType (typeAt T ix)) (tloc T ix)
       (c \<or> KindOf (typeAt T ix) = PointerKind))"
proof -
  from allocated_store_get [OF assms] obtain vp where vp: "store_get (loc T ix) s = Some vp"
    "KindOf (typeAt T ix) = PointerKind \<longrightarrow> (\<exists>x. vp = VPtr (Some x))" by blast
  show ?thesis
  proof (cases "KindOf (typeAt T ix) = PointerKind")
    case True
    then obtain t' where t': "typeAt T ix = PointerT t'" by (cases "typeAt T ix") auto
    from True vp obtain x where "vp = VPtr (Some x)" by blast
    with vp(1) t' True show ?thesis
      by (simp add: elemIfPtr_def IsNil_InStore tloc_def)
  next
    case False
    then show ?thesis
      by (simp add: elemIfPtr_def tloc_def elemIfPtrType_def)
  qed
qed

lemma reflectValueSet_ptr:
  assumes "store_get q s = Some (VPtr (Some y))" and "KindOf te \<noteq> PointerKind"
    and "src = Temp te x \<or> src = Temp (PointerT te) (VPtr (Some x))"
  shows "reflectValueSet (InStore (PointerT te) q c) src s = store_set (q @ [Deref]) x s"
proof -
  have set: "store_set q (VPtr (Some x)) s = store_set (q @ [Deref]) x s"
    using store_set_append [OF assms(1), of "[Deref]" x] by simp
  from assms(3) show ?thesis
  proof
    assume "src = Temp te x"
    then show ?thesis
      using assms(1,2) set by (cases c) (simp_all add: reflectValueSet_def addressable_def)
  next
    assume "src = Temp (PointerT te) (VPtr (Some x))"
    then show ?thesis
      using assms(1,2) set by (cases c) (simp_all add: reflectValueSet_def addressable_def)
  qed
qed

lemma reflectValueSet_nonptr:
  assumes "KindOf te \<noteq> PointerKind"
    and "src = Temp te x \<or> src = Temp (PointerT te) (VPtr (Some x))"
  shows "reflectValueSet (InStore te q True) src s = store_set q x s"
  using assms by (auto simp: reflectValueSet_def addressable_def)

lemma reflectValueSet_allocated:
  assumes "allocated T ix s" and "c \<or> KindOf (typeAt T ix) = PointerKind"
    and "KindOf (elemIfPtrType (typeAt T ix)) \<noteq> PointerKind"
    and "src = Temp (elemIfPtrType (typeAt T ix)) x \<or>
         src = Temp (PointerT (elemIfPtrType (typeAt T ix))) (VPtr (Some x))"
  shows "reflectValueSet (InStore (typeAt T ix) (loc T ix) c) src s = store_set (tloc T ix) x s"
proof -
  from allocated_store_get [OF assms(1)] obtain vp where vp: "store_get (loc T ix) s = Some vp"
    "KindOf (typeAt T ix) = PointerKind \<longrightarrow> (\<exists>y. vp = VPtr (Some y))" by blast
  show ?thesis
  proof (cases "KindOf (typeAt T ix) = PointerKind")
    case True
    then obtain te where te: "typeAt T ix = PointerT te" by (cases "typeAt T ix") auto
    from True vp obtain y where y: "store_get (loc T ix) s = Some (VPtr (Some y))" by blast
    from assms(3,4) te have "KindOf te \<noteq> PointerKind"
      "src = Temp te x \<or> src = Temp (PointerT te) (VPtr (Some x))" by simp_all
    from reflectValueSet_ptr [OF y this] te True show ?thesis
      by (simp add: tloc_def)
  next
    case False
    with assms(2) have c by simp
    from False have te: "elemIfPtrType (typeAt T ix) = typeAt T ix" by (simp add: elemIfPtrType_def)
    from reflectValueSet_nonptr [of "typeAt T ix" src x "loc T ix" s] assms(3,4) te False \<open>c\<close>
    show ?thesis by (simp add: tloc_def)
  qed
qed

lemma newValue_not_Pointer:
  "newValue b ix fs = Some v \<Longrightarrow> KindOf (elemIfPtrType (posType b fs)) \<noteq> PointerKind"
  by (auto simp: newValue_switch)

lemma node_base:
  "node_of T v \<Longrightarrow> base v = Some (InStore T [] False) \<and> encodeFn v = None \<and> decodeFn v = None"
  using newValue_Some [of "ValueOf_root T" "fieldsIndexes v" "fields_v v" v]
  by (simp add: node_of_def ValueOf_root_def)

lemma node_typeOfNode:
  assumes "node_of T v"
  shows "typeOfNode v = typeAt T (fieldsIndexes v)"
    and "typeOfNode v = posType (ValueOf_root T) (fields_v v)"
  using assms node_base [OF assms] typeAt_path_ok [of T "fieldsIndexes v" "fields_v v"]
  by (simp_all add: node_of_def typeOfNode_def posType_def ValueOf_root_def)

lemma node_kind_not_Pointer: "node_of T v \<Longrightarrow> kindOfNode v \<noteq> PointerKind"
  using newValue_not_Pointer [of "ValueOf_root T" "fieldsIndexes v" "fields_v v" v]
    node_typeOfNode(2) [of T v]
  by (simp add: node_of_def kindOfNode_def)

lemma New_node_of: "New (Any T r) = Some v \<Longrightarrow> node_of T v \<and> fieldsIndexes v = []"
  using newValue_Some [of "ValueOf_root T" "[]" "[]" v]
  by (auto simp: New_def node_of_def Let_def split: if_splits)

lemma Recursive_node_of:
  "val \<in> set (Recursive (Any T r) filters) \<Longrightarrow> \<exists>v. val = Some v \<and> node_of T v"
  using Recursive_nodes [of val T r filters] by (auto simp: node_of_def)

lemma node_ready:
  assumes "node_of T v" and "root_ok T r"
  shows "ready T v (alloc T (fieldsIndexes v) r)"
    and "get v r = Some (handle T v, alloc T (fieldsIndexes v) r)"
proof -
  from assms(2) have T: "KindOf T = PointerKind" and r: "\<not> is_nil r" and wt: "wt T r"
    by (simp_all add: root_ok_def)
  from assms(1) have "path_ok T (fieldsIndexes v) (fields_v v)" by (simp add: node_of_def)
  from wt_along [OF wt this] have al: "along T (fieldsIndexes v) r" .
  from node_base [OF assms(1)] have b: "base v = Some (InStore T [] False)" by simp
  from allocated_alloc [OF al] b T node_typeOfNode(1) [OF assms(1)] node_kind_not_Pointer [OF assms(1)]
  show "ready T v (alloc T (fieldsIndexes v) r)"
    by (simp add: ready_def)
  from get_eq [OF b T r al] node_typeOfNode(1) [OF assms(1)]
  show "get v r = Some (handle T v, alloc T (fieldsIndexes v) r)"
    by (simp add: handle_def)
qed

lemma ready_get: "ready T v s \<Longrightarrow> get v s = Some (handle T v, s)"
  using get_allocated [of v T s] by (simp add: ready_def handle_def)

lemma ready_flag:
  assumes "ready T v s"
  shows "fieldsIndexes v \<noteq> [] \<or> KindOf (typeAt T (fieldsIndexes v)) = PointerKind"
  using assms by (cases "fieldsIndexes v") (auto simp: ready_def)

lemma ready_elemIfPtr: "ready T v s \<Longrightarrow> elemIfPtr (handle T v) s = Some (thandle T v)"
  using elemIfPtr_allocated [of T "fieldsIndexes v" s "fieldsIndexes v \<noteq> []"] ready_flag [of T v s]
  by (simp add: ready_def handle_def thandle_def)

lemma ready_target_defined: "ready T v s \<Longrightarrow> \<exists>x. store_get (tloc T (fieldsIndexes v)) s = Some x"
  using allocated_tloc_get [of T "fieldsIndexes v" s] by (simp add: ready_def)

lemma ready_target: "ready T v s \<Longrightarrow> target v s = store_get (tloc T (fieldsIndexes v)) s"
  by (simp add: target_def ready_get ready_elemIfPtr) (simp add: thandle_def)

lemma ready_store_set:
  "ready T v s \<Longrightarrow> store_set (tloc T (fieldsIndexes v)) x s = Some s' \<Longrightarrow> ready T v s'"
  using allocated_store_set [of T "fieldsIndexes v" s x s'] by (simp add: ready_def)

lemma ready_reflectValueSet:
  assumes "ready T v s"
    and "src = Temp (elemIfPtrType (typeOfNode v)) x \<or>
         src = Temp (PointerT (elemIfPtrType (typeOfNode v))) (VPtr (Some x))"
  shows "reflectValueSet (handle T v) src s = store_set (tloc T (fieldsIndexes v)) x s"
  using reflectValueSet_allocated [of T "fieldsIndexes v" s "fieldsIndexes v \<noteq> []" src x]
    ready_flag [OF assms(1)] assms
  by (auto simp: ready_def handle_def kindOfNode_def)

lemma node_target:
  assumes "node_of T v" and "root_ok T r"
  shows "target v r = store_get (tloc T (fieldsIndexes v)) (alloc T (fieldsIndexes v) r)"
  using node_ready [OF assms] ready_elemIfPtr [OF node_ready(1) [OF assms]]
  by (simp add: target_def) (simp add: thandle_def)

end
